theory Spec2Isabelle
  imports Main
begin

section \<open>Data model (shared/schema.ts, server/storage.ts)\<close>

text \<open>
  The identity snapshots \<open>UserMe\<close> and \<open>CustomerMe\<close> and the credential triple
  \<open>AuthTokens\<close> of shared/schema.ts, and \<open>SessionData\<close> of server/storage.ts.
  An optional field \<open>f?: T\<close> is a \<open>T option\<close>. Timestamps and lifetimes are JavaScript
  numbers holding integers (milliseconds since the epoch, seconds): they are \<open>int\<close> here.
\<close>

record UserMe =
  user_id :: int
  user_email :: string
  user_name :: string
  user_locale :: "string option"
  user_timezone :: "string option"

record CustomerMe =
  customer_id :: int
  customer_name :: string
  customer_email :: "string option"
  customer_phone :: "string option"
  customer_address :: "string option"
  customer_city :: "string option"
  customer_postal_code :: "string option"
  customer_country :: "string option"
  customer_company_name :: "string option"
  customer_vat_number :: "string option"

record AuthTokens =
  access_token :: string
  refresh_token :: "string option"
  token_type :: string
  expires_in :: int

record SessionInfo =
  isAuthenticated :: bool
  info_user :: "UserMe option"
  info_customer :: "CustomerMe option"

record SessionData =
  accessToken :: string
  refreshToken :: "string option"
  expiresAt :: int
  user :: "UserMe option"
  customer :: "CustomerMe option"

text \<open>
  \<open>Partial<SessionData>\<close>: every key may be missing. \<open>None\<close> is a missing key; for the
  optional fields the inner option is the value stored under a key that is there.
\<close>

record SessionPatch =
  patch_accessToken :: "string option"
  patch_refreshToken :: "string option option"
  patch_expiresAt :: "int option"
  patch_user :: "UserMe option option"
  patch_customer :: "CustomerMe option option"

text \<open>The object spread \<open>{ ...session, ...data }\<close>: a key of \<open>data\<close> wins.\<close>

definition spread :: "SessionData \<Rightarrow> SessionPatch \<Rightarrow> SessionData" where
  "spread session data =
     \<lparr> accessToken = (case patch_accessToken data of None \<Rightarrow> accessToken session | Some a \<Rightarrow> a),
       refreshToken = (case patch_refreshToken data of None \<Rightarrow> refreshToken session | Some r \<Rightarrow> r),
       expiresAt = (case patch_expiresAt data of None \<Rightarrow> expiresAt session | Some e \<Rightarrow> e),
       user = (case patch_user data of None \<Rightarrow> user session | Some u \<Rightarrow> u),
       customer = (case patch_customer data of None \<Rightarrow> customer session | Some c \<Rightarrow> c) \<rparr>"

text \<open>
  JavaScript truthiness of an optional string: \<open>undefined\<close> and the empty string are
  falsy. \<open>a || b\<close> on two optional strings is \<open>a\<close> when \<open>a\<close> is truthy, else \<open>b\<close>.
\<close>

fun truthy :: "string option \<Rightarrow> bool" where
  "truthy None = False"
| "truthy (Some s) = (s \<noteq> [])"

definition or_else :: "string option \<Rightarrow> string option \<Rightarrow> string option" where
  "or_else a b = (if truthy a then a else b)"

text \<open>The string that a truthy optional string holds: what a branch guarded by it reads.\<close>

fun if_truthy :: "string option \<Rightarrow> string option" where
  "if_truthy None = None"
| "if_truthy (Some s) = (if s \<noteq> [] then Some s else None)"

section \<open>The credential store: class MemStorage (server/storage.ts)\<close>

text \<open>
  \<open>private sessions: Map<string, SessionData>\<close> is a map from session ids to rows. Each
  method takes the map and returns the new one where it writes. \<open>Date.now()\<close> is the
  argument \<open>now\<close>, and the value drawn by \<open>randomUUID()\<close> is the argument \<open>sessionId\<close>
  of \<open>createSession\<close>.
\<close>

type_synonym sessions = "string \<rightharpoonup> SessionData"

definition createSession ::
  "string \<Rightarrow> int \<Rightarrow> AuthTokens \<Rightarrow> UserMe option \<Rightarrow> CustomerMe option \<Rightarrow> sessions \<Rightarrow> string \<times> sessions" where
  "createSession sessionId now tokens u c m =
     (let expires = now + expires_in tokens * 1000
      in (sessionId,
          m(sessionId \<mapsto> \<lparr> accessToken = access_token tokens,
                            refreshToken = refresh_token tokens,
                            expiresAt = expires,
                            user = u,
                            customer = c \<rparr>)))"

definition getSession :: "string \<Rightarrow> sessions \<Rightarrow> SessionData option" where
  "getSession sessionId m = m sessionId"

definition updateSession :: "string \<Rightarrow> SessionPatch \<Rightarrow> sessions \<Rightarrow> sessions" where
  "updateSession sessionId data m =
     (case m sessionId of
        None \<Rightarrow> m
      | Some session \<Rightarrow> m(sessionId \<mapsto> spread session data))"

definition deleteSession :: "string \<Rightarrow> sessions \<Rightarrow> sessions" where
  "deleteSession sessionId m = m(sessionId := None)"

definition getSessionInfo :: "int \<Rightarrow> string \<Rightarrow> sessions \<Rightarrow> SessionInfo \<times> sessions" where
  "getSessionInfo now sessionId m =
     (case m sessionId of
        None \<Rightarrow> (\<lparr> isAuthenticated = False, info_user = None, info_customer = None \<rparr>, m)
      | Some session \<Rightarrow>
          if expiresAt session < now
          then (\<lparr> isAuthenticated = False, info_user = None, info_customer = None \<rparr>,
                m(sessionId := None))
          else (\<lparr> isAuthenticated = True, info_user = user session,
                  info_customer = customer session \<rparr>, m))"

section \<open>The upstream API and the server state (server/routes.ts)\<close>

text \<open>
  A call that \<open>fetch\<close> sends upstream: the path (after \<open>API_BASE_URL\<close>), the method,
  the serialised body and the bearer token of the \<open>Authorization\<close> header, if any.
\<close>

record LoginPincodeRequest =
  connector_uuid :: string
  pincode :: string

datatype reqbody =
    NoBody
  | RefreshBody string
  | PincodeBody LoginPincodeRequest
  | JsonBody string

record call =
  call_path :: string
  call_method :: string
  call_body :: reqbody
  call_bearer :: "string option"

text \<open>
  What \<open>response.json()\<close> finds in the body of an upstream reply: a credential object of
  the shape \<open>AuthTokens\<close>, \<open>null\<close>, another falsy JSON value (\<open>false\<close>, \<open>0\<close>, \<open>""\<close>), any
  other JSON value (kept as its text), or text that is not JSON, on which
  \<open>response.json()\<close> throws.
\<close>

datatype payload =
    TokenJson AuthTokens
  | NullJson
  | FalsyJson
  | OtherJson string
  | Unparsable string

record Response =
  status :: int
  contentType :: "string option"
  body :: payload

definition ok :: "Response \<Rightarrow> bool" where
  "ok response = (200 \<le> status response \<and> status response \<le> 299)"

text \<open>
  The upstream is an external collaborator: any function from the calls made so far and
  the call made now to what \<open>fetch\<close> yields (\<open>None\<close> when the promise rejects: network
  failure) and the milliseconds that pass until then.
\<close>

type_synonym upstream = "call list \<Rightarrow> call \<Rightarrow> Response option \<times> nat"

text \<open>
  The state of the server process: the module-level \<open>storage\<close>, the clock that
  \<open>Date.now()\<close> reads, and the log of the calls sent upstream, oldest first.
\<close>

record server =
  store :: sessions
  clock :: int
  calls :: "call list"

definition TOKEN_REFRESH_BUFFER_MS :: int where
  "TOKEN_REFRESH_BUFFER_MS = 5 * 60 * 1000"

text \<open>
  The code reads the fields of a parsed 2xx body of a token endpoint without a check of
  its shape: the refresh paths when the value is truthy, the login whenever it is not
  \<open>null\<close> (on which reading a field throws). For a JSON value that is not of the declared
  shape \<open>AuthTokens\<close> the fields are \<open>undefined\<close>. The declared types exclude such a body;
  the embedding stops there with this error rather than invent a row with undefined
  fields.
\<close>

datatype error = IllTypedBody

definition apiRequest ::
  "upstream \<Rightarrow> string \<Rightarrow> string \<Rightarrow> reqbody \<Rightarrow> string option \<Rightarrow> server \<Rightarrow> Response option \<times> server" where
  "apiRequest up path method b token srv =
     (let c = \<lparr> call_path = path, call_method = method, call_body = b,
                call_bearer = if_truthy token \<rparr>
      in case up (calls srv) c of
           (r, elapsed) \<Rightarrow>
             (r, srv\<lparr> clock := clock srv + int elapsed, calls := calls srv @ [c] \<rparr>))"

definition refreshTokens ::
  "upstream \<Rightarrow> string \<Rightarrow> server \<Rightarrow> (error + AuthTokens option) \<times> server" where
  "refreshTokens up rt srv =
     (case apiRequest up ''/v1/authenticate/refresh'' ''POST'' (RefreshBody rt) None srv of
        (None, srv') \<Rightarrow> (Inr None, srv')
      | (Some response, srv') \<Rightarrow>
          if \<not> ok response then (Inr None, srv')
          else (case body response of
                  TokenJson t \<Rightarrow> (Inr (Some t), srv')
                | NullJson \<Rightarrow> (Inr None, srv')
                | FalsyJson \<Rightarrow> (Inr None, srv')
                | OtherJson j \<Rightarrow> (Inl IllTypedBody, srv')
                | Unparsable x \<Rightarrow> (Inr None, srv')))"

section \<open>What the client gets back\<close>

datatype cookie = CookieUntouched | CookieSet string | CookieCleared

datatype resbody =
    Message string
  | Success
  | Invalid
  | Info SessionInfo
  | Relayed payload
  | RelayedText payload

record client_res =
  res_status :: int
  res_body :: resbody
  res_cookie :: cookie

definition unauthorized :: client_res where
  "unauthorized = \<lparr> res_status = 401, res_body = Message ''Unauthorized'', res_cookie = CookieUntouched \<rparr>"

definition session_expired :: client_res where
  "session_expired = \<lparr> res_status = 401, res_body = Message ''Session expired'', res_cookie = CookieCleared \<rparr>"

definition internal_error :: client_res where
  "internal_error = \<lparr> res_status = 500, res_body = Message ''Internal server error'', res_cookie = CookieUntouched \<rparr>"

section \<open>requireAuth\<close>

text \<open>
  \<open>getSessionId\<close> reads the cookie \<open>jfl_session\<close> of the request, which is the argument
  \<open>cooky\<close>; \<open>!sessionId\<close> holds for a missing cookie and for an empty one.
\<close>

definition getSessionId :: "string option \<Rightarrow> string option" where
  "getSessionId cooky = cooky"

text \<open>
  The middleware either answers the request itself or calls \<open>next()\<close> with
  \<open>req.session\<close> and \<open>req.sessionId\<close> set.
\<close>

datatype auth_result = Responded client_res | Next "SessionData option" string

text \<open>
  The object both refresh paths hand to \<open>storage.updateSession\<close>; \<open>old\<close> is
  \<open>session.refreshToken\<close> and \<open>now\<close> is \<open>Date.now()\<close>.
\<close>

definition refreshed :: "AuthTokens \<Rightarrow> string option \<Rightarrow> int \<Rightarrow> SessionPatch" where
  "refreshed newTokens old now =
     \<lparr> patch_accessToken = Some (access_token newTokens),
       patch_refreshToken = Some (or_else (refresh_token newTokens) old),
       patch_expiresAt = Some (now + expires_in newTokens * 1000),
       patch_user = None,
       patch_customer = None \<rparr>"

definition requireAuth ::
  "upstream \<Rightarrow> string option \<Rightarrow> server \<Rightarrow> (error + auth_result) \<times> server" where
  "requireAuth up cooky srv =
     (case if_truthy (getSessionId cooky) of
        None \<Rightarrow> (Inr (Responded unauthorized), srv)
      | Some sessionId \<Rightarrow>
          (case getSession sessionId (store srv) of
             None \<Rightarrow> (Inr (Responded session_expired), srv)
           | Some session \<Rightarrow>
               (case (if expiresAt session < clock srv + TOKEN_REFRESH_BUFFER_MS
                      then if_truthy (refreshToken session) else None) of
                  Some rt \<Rightarrow>
                    (case refreshTokens up rt srv of
                       (Inl e, srv') \<Rightarrow> (Inl e, srv')
                     | (Inr (Some newTokens), srv') \<Rightarrow>
                         (let srv'' = srv'\<lparr> store := updateSession sessionId
                                          (refreshed newTokens (refreshToken session) (clock srv')) (store srv') \<rparr>
                          in (Inr (Next (getSession sessionId (store srv'')) sessionId), srv''))
                     | (Inr None, srv') \<Rightarrow> (Inr (Responded session_expired), srv'))
                | None \<Rightarrow>
                    if expiresAt session < clock srv
                    then (Inr (Responded session_expired), srv)
                    else (Inr (Next (getSession sessionId (store srv)) sessionId), srv))))"

section \<open>proxyRequest\<close>

text \<open>\<open>contentType?.includes("application/json")\<close>: the substring test.\<close>

fun includes_str :: "string \<Rightarrow> string \<Rightarrow> bool" where
  "includes_str [] t = (t = [])"
| "includes_str (c # s) t = (take (length t) (c # s) = t \<or> includes_str s t)"

text \<open>
  The tail of \<open>proxyRequest\<close>, from \<open>const contentType = ...\<close> on: a 401 ends the
  session for the client, any other status is relayed with its body, parsed and
  re-serialised when the reply says it is JSON (a body that does not parse throws, and
  the \<open>catch\<close> answers 500).
\<close>

definition relay :: "Response \<Rightarrow> client_res" where
  "relay response =
     (if status response = 401 then session_expired
      else if (case contentType response of None \<Rightarrow> False | Some ct \<Rightarrow> includes_str ct ''application/json'')
      then (case body response of
              Unparsable x \<Rightarrow> internal_error
            | data \<Rightarrow> \<lparr> res_status = status response, res_body = Relayed data, res_cookie = CookieUntouched \<rparr>)
      else \<lparr> res_status = status response, res_body = RelayedText (body response),
             res_cookie = CookieUntouched \<rparr>)"

text \<open>
  \<open>session\<close> and \<open>sessionId\<close> are what \<open>requireAuth\<close> left on the request; \<open>b\<close> is the
  body to forward, \<open>None\<close> when the handler passes none. In the refresh branch
  \<open>session.refreshToken\<close> is the truthy string \<open>rt\<close> that the guard has just read.
\<close>

definition proxyRequest ::
  "upstream \<Rightarrow> SessionData option \<Rightarrow> string \<Rightarrow> string \<Rightarrow> string \<Rightarrow> string option \<Rightarrow> server
     \<Rightarrow> (error + client_res) \<times> server" where
  "proxyRequest up session sessionId method apiPath b srv =
     (let outgoing = (case b of None \<Rightarrow> NoBody | Some j \<Rightarrow> JsonBody j)
      in case apiRequest up apiPath method outgoing (map_option accessToken session) srv of
           (None, srv1) \<Rightarrow> (Inr internal_error, srv1)
         | (Some response, srv1) \<Rightarrow>
             (case (if status response = 401
                    then (case session of None \<Rightarrow> None | Some s \<Rightarrow> if_truthy (refreshToken s))
                    else None) of
                None \<Rightarrow> (Inr (relay response), srv1)
              | Some rt \<Rightarrow>
                  (case refreshTokens up rt srv1 of
                     (Inl e, srv2) \<Rightarrow> (Inl e, srv2)
                   | (Inr None, srv2) \<Rightarrow> (Inr session_expired, srv2)
                   | (Inr (Some newTokens), srv2) \<Rightarrow>
                       (let srv3 = srv2\<lparr> store := updateSession sessionId
                                        (refreshed newTokens (Some rt) (clock srv2)) (store srv2) \<rparr>
                        in case apiRequest up apiPath method outgoing (Some (access_token newTokens)) srv3 of
                             (None, srv4) \<Rightarrow> (Inr internal_error, srv4)
                           | (Some response', srv4) \<Rightarrow> (Inr (relay response'), srv4)))))"

section \<open>The routes of registerRoutes that the session layer consists of\<close>

text \<open>
  \<open>loginPincodeSchema.parse\<close>: the pincode has at least 4 characters and the connector
  id is a UUID. The UUID test is zod's, outside the repository: it is the parameter
  \<open>is_uuid\<close>. \<open>None\<close> is the thrown \<open>ZodError\<close>.
\<close>

definition loginPincodeSchema_parse ::
  "(string \<Rightarrow> bool) \<Rightarrow> LoginPincodeRequest \<Rightarrow> LoginPincodeRequest option" where
  "loginPincodeSchema_parse is_uuid b =
     (if is_uuid (connector_uuid b) \<and> 4 \<le> length (pincode b) then Some b else None)"

definition login_failed :: client_res where
  "login_failed = \<lparr> res_status = 500, res_body = Message ''Login failed'', res_cookie = CookieUntouched \<rparr>"

text \<open>
  \<open>POST /api/auth/login-pincode\<close>. \<open>sessionId\<close> is the value \<open>randomUUID()\<close> draws
  inside \<open>storage.createSession\<close>. On a 2xx body that is \<open>null\<close> or does not parse,
  \<open>createSession\<close> or \<open>response.json()\<close> throws, and the \<open>catch\<close> answers 500.
\<close>

definition auth_login_pincode ::
  "(string \<Rightarrow> bool) \<Rightarrow> upstream \<Rightarrow> LoginPincodeRequest \<Rightarrow> string \<Rightarrow> server
     \<Rightarrow> (error + client_res) \<times> server" where
  "auth_login_pincode is_uuid up reqBody sessionId srv =
     (case loginPincodeSchema_parse is_uuid reqBody of
        None \<Rightarrow> (Inr \<lparr> res_status = 400, res_body = Invalid, res_cookie = CookieUntouched \<rparr>, srv)
      | Some data \<Rightarrow>
          (case apiRequest up ''/v2/authenticate/pincode'' ''POST'' (PincodeBody data) None srv of
             (None, srv') \<Rightarrow> (Inr login_failed, srv')
           | (Some response, srv') \<Rightarrow>
               if \<not> ok response
               then (Inr \<lparr> res_status = status response,
                           res_body = (case body response of
                                         Unparsable x \<Rightarrow> Message ''Login failed''
                                       | err \<Rightarrow> Relayed err),
                           res_cookie = CookieUntouched \<rparr>, srv')
               else (case body response of
                       TokenJson tokens \<Rightarrow>
                         (case createSession sessionId (clock srv') tokens None None (store srv') of
                            (sid, m) \<Rightarrow>
                              (Inr \<lparr> res_status = 200, res_body = Success, res_cookie = CookieSet sid \<rparr>,
                               srv'\<lparr> store := m \<rparr>))
                     | NullJson \<Rightarrow> (Inr login_failed, srv')
                     | FalsyJson \<Rightarrow> (Inl IllTypedBody, srv')
                     | OtherJson j \<Rightarrow> (Inl IllTypedBody, srv')
                     | Unparsable x \<Rightarrow> (Inr login_failed, srv'))))"

text \<open>\<open>POST /api/auth/logout\<close>.\<close>

definition auth_logout :: "string option \<Rightarrow> server \<Rightarrow> client_res \<times> server" where
  "auth_logout cooky srv =
     (\<lparr> res_status = 200, res_body = Success, res_cookie = CookieCleared \<rparr>,
      (case if_truthy (getSessionId cooky) of
         None \<Rightarrow> srv
       | Some sessionId \<Rightarrow> srv\<lparr> store := deleteSession sessionId (store srv) \<rparr>))"

text \<open>\<open>GET /api/auth/session\<close>.\<close>

definition auth_session :: "string option \<Rightarrow> server \<Rightarrow> client_res \<times> server" where
  "auth_session cooky srv =
     (case if_truthy (getSessionId cooky) of
        None \<Rightarrow>
          (\<lparr> res_status = 200,
             res_body = Info \<lparr> isAuthenticated = False, info_user = None, info_customer = None \<rparr>,
             res_cookie = CookieUntouched \<rparr>, srv)
      | Some sessionId \<Rightarrow>
          (case getSessionInfo (clock srv) sessionId (store srv) of
             (sessionInfo, m) \<Rightarrow>
               (\<lparr> res_status = 200, res_body = Info sessionInfo, res_cookie = CookieUntouched \<rparr>,
                srv\<lparr> store := m \<rparr>)))"

section \<open>The calls a handler sends\<close>

text \<open>
  The calls that \<open>refreshTokens\<close>, \<open>proxyRequest\<close> and the pincode login send, and the
  state once the upstream has answered a call \<open>c\<close>: time has passed, the log is longer.
\<close>

definition refresh_call :: "string \<Rightarrow> call" where
  "refresh_call rt =
     \<lparr> call_path = ''/v1/authenticate/refresh'', call_method = ''POST'',
       call_body = RefreshBody rt, call_bearer = None \<rparr>"

definition forward_call :: "string \<Rightarrow> string \<Rightarrow> string option \<Rightarrow> string option \<Rightarrow> call" where
  "forward_call apiPath method b token =
     \<lparr> call_path = apiPath, call_method = method,
       call_body = (case b of None \<Rightarrow> NoBody | Some j \<Rightarrow> JsonBody j),
       call_bearer = if_truthy token \<rparr>"

definition login_call :: "LoginPincodeRequest \<Rightarrow> call" where
  "login_call data =
     \<lparr> call_path = ''/v2/authenticate/pincode'', call_method = ''POST'',
       call_body = PincodeBody data, call_bearer = None \<rparr>"

definition answered :: "upstream \<Rightarrow> call \<Rightarrow> server \<Rightarrow> server" where
  "answered up c srv =
     srv\<lparr> clock := clock srv + int (snd (up (calls srv) c)), calls := calls srv @ [c] \<rparr>"

text \<open>
  The calls a handler has sent are those that the log of the state after it holds beyond
  the log of the state before it. A refresh call is told from a forwarded one by its
  body, which no forwarded call has.
\<close>

definition sent :: "server \<Rightarrow> server \<Rightarrow> call list" where
  "sent before after = drop (length (calls before)) (calls after)"

fun is_refresh :: "call \<Rightarrow> bool" where
  "is_refresh c = (case call_body c of RefreshBody rt \<Rightarrow> True | _ \<Rightarrow> False)"

definition refresh_attempts :: "call list \<Rightarrow> nat" where
  "refresh_attempts cs = length (filter is_refresh cs)"

definition forward_attempts :: "call list \<Rightarrow> nat" where
  "forward_attempts cs = length (filter (\<lambda>c. \<not> is_refresh c) cs)"

text \<open>A row is there and its \<open>expiresAt\<close> lies before \<open>now\<close>.\<close>

definition expired_at :: "int \<Rightarrow> SessionData option \<Rightarrow> bool" where
  "expired_at now r = (case r of None \<Rightarrow> False | Some session \<Rightarrow> expiresAt session < now)"

section \<open>Requests that overlap: requireAuth on the event loop\<close>

text \<open>
  \<open>requireAuth\<close> is an \<open>async\<close> function: it runs without interruption up to
  \<open>await refreshTokens(...)\<close>, where \<open>fetch\<close> has sent the refresh call, and the rest of
  it runs, again without interruption, when the reply has arrived. In between, the
  event loop runs other requests. \<open>requireAuth_begin\<close> is the part before the \<open>await\<close>:
  it ends the request, or suspends it with what the rest needs (\<open>sessionId\<close>, the
  \<open>session\<close> it read, and the refresh credential it sent). \<open>refresh_result\<close> is what
  \<open>refreshTokens\<close> makes of the reply, and \<open>requireAuth_resume\<close> is the part after the
  \<open>await\<close>.
\<close>

record pending =
  pending_sessionId :: string
  pending_session :: SessionData
  pending_refreshToken :: string

datatype begun = Finished auth_result | Suspended pending

definition requireAuth_begin :: "string option \<Rightarrow> server \<Rightarrow> begun" where
  "requireAuth_begin cooky srv =
     (case if_truthy (getSessionId cooky) of
        None \<Rightarrow> Finished (Responded unauthorized)
      | Some sessionId \<Rightarrow>
          (case getSession sessionId (store srv) of
             None \<Rightarrow> Finished (Responded session_expired)
           | Some session \<Rightarrow>
               (case (if expiresAt session < clock srv + TOKEN_REFRESH_BUFFER_MS
                      then if_truthy (refreshToken session) else None) of
                  Some rt \<Rightarrow>
                    Suspended \<lparr> pending_sessionId = sessionId, pending_session = session,
                                pending_refreshToken = rt \<rparr>
                | None \<Rightarrow>
                    if expiresAt session < clock srv
                    then Finished (Responded session_expired)
                    else Finished (Next (getSession sessionId (store srv)) sessionId))))"

definition refresh_result :: "Response option \<Rightarrow> error + AuthTokens option" where
  "refresh_result reply =
     (case reply of
        None \<Rightarrow> Inr None
      | Some response \<Rightarrow>
          if \<not> ok response then Inr None
          else (case body response of
                  TokenJson t \<Rightarrow> Inr (Some t)
                | NullJson \<Rightarrow> Inr None
                | FalsyJson \<Rightarrow> Inr None
                | OtherJson j \<Rightarrow> Inl IllTypedBody
                | Unparsable x \<Rightarrow> Inr None))"

definition requireAuth_resume ::
  "pending \<Rightarrow> error + AuthTokens option \<Rightarrow> server \<Rightarrow> (error + auth_result) \<times> server" where
  "requireAuth_resume p newTokens srv =
     (case newTokens of
        Inl e \<Rightarrow> (Inl e, srv)
      | Inr (Some t) \<Rightarrow>
          (let srv' = srv\<lparr> store := updateSession (pending_sessionId p)
                           (refreshed t (refreshToken (pending_session p)) (clock srv)) (store srv) \<rparr>
           in (Inr (Next (getSession (pending_sessionId p) (store srv')) (pending_sessionId p)), srv'))
      | Inr None \<Rightarrow> (Inr (Responded session_expired), srv))"

text \<open>
  The server with its suspended requests. An event is a request that arrives with a
  cookie, or the reply to the refresh call of the \<open>i\<close>-th suspended request; each event
  comes some milliseconds after the one before. An event naming no suspended request
  only lets the time pass.
\<close>

record node =
  node_server :: server
  waiting :: "pending list"
  finished :: "(error + auth_result) list"

datatype event = Arrive nat "string option" | Deliver nat nat "Response option"

fun step :: "node \<Rightarrow> event \<Rightarrow> node" where
  "step n (Arrive d cooky) =
     (let srv = (node_server n)\<lparr> clock := clock (node_server n) + int d \<rparr>
      in case requireAuth_begin cooky srv of
           Finished r \<Rightarrow> n\<lparr> node_server := srv, finished := finished n @ [Inr r] \<rparr>
         | Suspended p \<Rightarrow>
             n\<lparr> node_server := srv\<lparr> calls := calls srv @ [refresh_call (pending_refreshToken p)] \<rparr>,
                waiting := waiting n @ [p] \<rparr>)"
| "step n (Deliver d i reply) =
     (let srv = (node_server n)\<lparr> clock := clock (node_server n) + int d \<rparr>
      in if i < length (waiting n)
         then (case requireAuth_resume (waiting n ! i) (refresh_result reply) srv of
                 (r, srv') \<Rightarrow>
                   \<lparr> node_server = srv',
                     waiting = take i (waiting n) @ drop (Suc i) (waiting n),
                     finished = finished n @ [r] \<rparr>)
         else n\<lparr> node_server := srv \<rparr>)"

definition run :: "node \<Rightarrow> event list \<Rightarrow> node" where
  "run n events = foldl step n events"

text \<open>The refresh exchanges in flight for a session id, and a node with nothing suspended.\<close>

definition in_flight :: "string \<Rightarrow> node \<Rightarrow> nat" where
  "in_flight sessionId n = length (filter (\<lambda>p. pending_sessionId p = sessionId) (waiting n))"

definition idle :: "server \<Rightarrow> node" where
  "idle srv = \<lparr> node_server = srv, waiting = [], finished = [] \<rparr>"

section \<open>Concrete sessions and upstreams\<close>

text \<open>
  A row as \<open>createSession\<close> writes it, a server whose store holds one row under the id
  \<open>s1\<close>, and a server with an empty store.
\<close>

definition row :: "string \<Rightarrow> string option \<Rightarrow> int \<Rightarrow> SessionData" where
  "row a r e = \<lparr> accessToken = a, refreshToken = r, expiresAt = e, user = None, customer = None \<rparr>"

definition server_with :: "SessionData \<Rightarrow> int \<Rightarrow> server" where
  "server_with session now = \<lparr> store = [''s1'' \<mapsto> session], clock = now, calls = [] \<rparr>"

definition empty_server :: "int \<Rightarrow> server" where
  "empty_server now = \<lparr> store = Map.empty, clock = now, calls = [] \<rparr>"

text \<open>
  The credentials of the login scenario, credentials without a refresh credential,
  credentials that rotate the refresh credential, and a pincode login body.
\<close>

definition tokens_A1 :: AuthTokens where
  "tokens_A1 = \<lparr> access_token = ''A1'', refresh_token = Some ''R1'', token_type = ''Bearer'', expires_in = 3600 \<rparr>"

definition tokens_A2 :: AuthTokens where
  "tokens_A2 = \<lparr> access_token = ''A2'', refresh_token = None, token_type = ''Bearer'', expires_in = 3600 \<rparr>"

definition tokens_A3 :: AuthTokens where
  "tokens_A3 = \<lparr> access_token = ''A3'', refresh_token = Some ''R3'', token_type = ''Bearer'', expires_in = 3600 \<rparr>"

definition pincode_request :: LoginPincodeRequest where
  "pincode_request = \<lparr> connector_uuid = ''123e4567-e89b-12d3-a456-426614174000'', pincode = ''1234'' \<rparr>"

text \<open>
  A 2xx reply with credentials, the reply 401, an upstream that answers every call with
  the same reply after \<open>d\<close> milliseconds, and an upstream that answers every refresh with
  the credentials \<open>t\<close> and every other call with the status \<open>st\<close> and an empty text
  body.
\<close>

definition tokens_reply :: "AuthTokens \<Rightarrow> Response" where
  "tokens_reply t = \<lparr> status = 200, contentType = Some ''application/json'', body = TokenJson t \<rparr>"

definition reply_401 :: Response where
  "reply_401 = \<lparr> status = 401, contentType = None, body = Unparsable [] \<rparr>"

definition always :: "Response option \<Rightarrow> nat \<Rightarrow> upstream" where
  "always r d = (\<lambda>history c. (r, d))"

definition answering :: "AuthTokens \<Rightarrow> int \<Rightarrow> upstream" where
  "answering t st =
     (\<lambda>history c.
        if is_refresh c then (Some (tokens_reply t), 0)
        else (Some \<lparr> status = st, contentType = None, body = Unparsable [] \<rparr>, 0))"

section \<open>Frame lemmas of the upstream calls\<close>

lemma apiRequest_store: "store (snd (apiRequest up p m b t srv)) = store srv"
  by (simp add: apiRequest_def Let_def split: prod.splits)

lemma apiRequest_calls:
  "calls (snd (apiRequest up p m b t srv)) =
     calls srv @ [\<lparr> call_path = p, call_method = m, call_body = b, call_bearer = if_truthy t \<rparr>]"
  by (simp add: apiRequest_def Let_def split: prod.splits)

lemma refreshTokens_store: "store (snd (refreshTokens up rt srv)) = store srv"
  using apiRequest_store [of up "''/v1/authenticate/refresh''" "''POST''" "RefreshBody rt" None srv]
  by (auto simp: refreshTokens_def split: prod.splits option.splits payload.splits)

lemma refreshTokens_calls:
  "calls (snd (refreshTokens up rt srv)) =
     calls srv @ [\<lparr> call_path = ''/v1/authenticate/refresh'', call_method = ''POST'',
                    call_body = RefreshBody rt, call_bearer = None \<rparr>]"
  using apiRequest_calls [of up "''/v1/authenticate/refresh''" "''POST''" "RefreshBody rt" None srv]
  by (auto simp: refreshTokens_def split: prod.splits option.splits payload.splits)

section \<open>Logout\<close>

text \<open>
  C8. Logout is total and idempotent: for every cookie and every server state the route
  answers 200 with \<open>{success: true}\<close> and clears the cookie; a second logout answers
  the same and leaves the state of the first; after a logout with a session id (a
  non-empty cookie value, as every id drawn by \<open>randomUUID\<close> is) no row is stored under
  that id, whether there was one or not. The same holds of \<open>deleteSession\<close> itself.
\<close>

theorem logout_idempotent_total:
  "fst (auth_logout cooky srv) = \<lparr> res_status = 200, res_body = Success, res_cookie = CookieCleared \<rparr>
   \<and> auth_logout cooky (snd (auth_logout cooky srv)) = auth_logout cooky srv
   \<and> (sid \<noteq> [] \<longrightarrow> getSession sid (store (snd (auth_logout (Some sid) srv))) = None)
   \<and> getSession sid (deleteSession sid m) = None
   \<and> deleteSession sid (deleteSession sid m) = deleteSession sid m"
  by (cases cooky) (auto simp: auth_logout_def getSessionId_def getSession_def deleteSession_def)

theorem logout_idempotent_total_witness:
  "''s1'' \<noteq> []
   \<and> getSession ''s1'' (store (server_with (row ''A1'' None 5) 0)) \<noteq> None
   \<and> getSession ''s1'' (store (snd (auth_logout (Some ''s1'') (server_with (row ''A1'' None 5) 0)))) = None
   \<and> auth_logout (Some ''s1'') (snd (auth_logout (Some ''s1'') (server_with (row ''A1'' None 5) 0)))
       = auth_logout (Some ''s1'') (server_with (row ''A1'' None 5) 0)"
  using logout_idempotent_total [of "Some ''s1''" "server_with (row ''A1'' None 5) 0" "''s1''" Map.empty]
  by (simp add: server_with_def getSession_def)

section \<open>The session query\<close>

text \<open>
  C5, as stated: a session query never changes the store. It fails: the query of a
  session whose \<open>expiresAt\<close> (5) lies before the clock (10) deletes the row.
\<close>

theorem session_info_mutates_counterexample:
  "getSession ''s1'' (store (server_with (row ''A1'' None 5) 10)) = Some (row ''A1'' None 5)
   \<and> getSession ''s1'' (store (snd (auth_session (Some ''s1'') (server_with (row ''A1'' None 5) 10)))) = None
   \<and> store (snd (auth_session (Some ''s1'') (server_with (row ''A1'' None 5) 10)))
       \<noteq> store (server_with (row ''A1'' None 5) 10)"
proof -
  have a: "getSession ''s1'' (store (server_with (row ''A1'' None 5) 10)) = Some (row ''A1'' None 5)"
    by (simp add: getSession_def server_with_def)
  have b: "getSession ''s1'' (store (snd (auth_session (Some ''s1'') (server_with (row ''A1'' None 5) 10)))) = None"
    by (simp add: auth_session_def getSessionId_def getSessionInfo_def getSession_def server_with_def row_def)
  from a b have "store (snd (auth_session (Some ''s1'') (server_with (row ''A1'' None 5) 10)))
       \<noteq> store (server_with (row ''A1'' None 5) 10)"
    by auto
  with a b show ?thesis by simp
qed

text \<open>
  C5, amended: a session query sends nothing upstream and does not move the clock; it
  never touches a row other than the one the cookie names; it leaves the whole store as
  it is unless that row's \<open>expiresAt\<close> has passed, and then it deletes exactly that row
  and reports \<open>isAuthenticated: false\<close>.
\<close>

theorem session_info_frame:
  "calls (snd (auth_session cooky srv)) = calls srv
   \<and> clock (snd (auth_session cooky srv)) = clock srv
   \<and> (cooky \<noteq> Some sid \<longrightarrow> store (snd (auth_session cooky srv)) sid = store srv sid)
   \<and> (\<not> expired_at (clock srv) (store srv sid) \<longrightarrow>
        store (snd (auth_session (Some sid) srv)) = store srv)
   \<and> (expired_at (clock srv) (store srv sid) \<and> sid \<noteq> [] \<longrightarrow>
        store (snd (auth_session (Some sid) srv)) = (store srv)(sid := None)
        \<and> res_body (fst (auth_session (Some sid) srv))
            = Info \<lparr> isAuthenticated = False, info_user = None, info_customer = None \<rparr>)"
  by (cases cooky)
     (auto simp: auth_session_def getSessionId_def getSessionInfo_def expired_at_def
           split: option.splits if_splits)

theorem session_info_frame_witness:
  "\<not> expired_at 10 (store (server_with (row ''A1'' None 50) 10) ''s1'')
   \<and> store (snd (auth_session (Some ''s1'') (server_with (row ''A1'' None 50) 10)))
       = store (server_with (row ''A1'' None 50) 10)
   \<and> expired_at 10 (store (server_with (row ''A1'' None 5) 10) ''s1'')
   \<and> ''s1'' \<noteq> []
   \<and> store (snd (auth_session (Some ''s1'') (server_with (row ''A1'' None 5) 10)))
       = (store (server_with (row ''A1'' None 5) 10))(''s1'' := None)
   \<and> Some ''s1'' \<noteq> Some ''s2''
   \<and> store (snd (auth_session (Some ''s1'') (server_with (row ''A1'' None 5) 10))) ''s2''
       = store (server_with (row ''A1'' None 5) 10) ''s2''"
  using session_info_frame [of "Some ''s1''" "server_with (row ''A1'' None 50) 10" "''s1''"]
        session_info_frame [of "Some ''s1''" "server_with (row ''A1'' None 5) 10" "''s1''"]
        session_info_frame [of "Some ''s1''" "server_with (row ''A1'' None 5) 10" "''s2''"]
  by (simp add: server_with_def row_def expired_at_def)

section \<open>Expiry without a refresh credential\<close>

text \<open>
  C4. For a session whose \<open>expiresAt\<close> has passed and whose refresh credential is
  missing (or empty), \<open>requireAuth\<close> answers 401 "Session expired" and clears the cookie,
  but the server state is the one before the call: the row is still in the store. The
  claim's removal of the row is what \<open>getSessionInfo\<close> does with the same row at the
  same instant, and what \<open>requireAuth\<close> leaves out.
\<close>

theorem requireAuth_expired_keeps_row:
  assumes "sid \<noteq> []" and "store srv sid = Some session"
    and "expiresAt session < clock srv" and "\<not> truthy (refreshToken session)"
  shows "requireAuth up (Some sid) srv = (Inr (Responded session_expired), srv)
         \<and> getSession sid (store (snd (requireAuth up (Some sid) srv))) = Some session
         \<and> getSessionInfo (clock srv) sid (store srv)
            = (\<lparr> isAuthenticated = False, info_user = None, info_customer = None \<rparr>,
               (store srv)(sid := None))"
proof -
  from assms(4) have "if_truthy (refreshToken session) = None"
    by (cases "refreshToken session") auto
  with assms(1-3) show ?thesis
    by (simp add: requireAuth_def getSessionId_def getSession_def getSessionInfo_def)
qed

theorem requireAuth_expired_keeps_row_witness:
  "''s1'' \<noteq> [] \<and> store (server_with (row ''A1'' None 5) 10) ''s1'' = Some (row ''A1'' None 5)
   \<and> expiresAt (row ''A1'' None 5) < clock (server_with (row ''A1'' None 5) 10)
   \<and> \<not> truthy (refreshToken (row ''A1'' None 5))
   \<and> requireAuth (\<lambda>h c. (None, 0)) (Some ''s1'') (server_with (row ''A1'' None 5) 10)
       = (Inr (Responded session_expired), server_with (row ''A1'' None 5) 10)
   \<and> getSession ''s1'' (store (snd (requireAuth (\<lambda>h c. (None, 0)) (Some ''s1'')
         (server_with (row ''A1'' None 5) 10)))) = Some (row ''A1'' None 5)"
  using requireAuth_expired_keeps_row [of "''s1''" "server_with (row ''A1'' None 5) 10"
          "row ''A1'' None 5" "\<lambda>h c. (None, 0)"]
  by (simp add: server_with_def row_def getSession_def)

section \<open>What one upstream call and one refresh do to the state\<close>

lemma apiRequest_eq:
  "apiRequest up p m b t srv = (r, srv') \<Longrightarrow>
     r = fst (up (calls srv) \<lparr> call_path = p, call_method = m, call_body = b, call_bearer = if_truthy t \<rparr>)
     \<and> store srv' = store srv
     \<and> calls srv' = calls srv @ [\<lparr> call_path = p, call_method = m, call_body = b, call_bearer = if_truthy t \<rparr>]"
  by (auto simp: apiRequest_def Let_def split: prod.splits)

lemma refreshTokens_eq:
  "refreshTokens up rt srv = (r, srv') \<Longrightarrow>
     store srv' = store srv \<and> calls srv' = calls srv @ [refresh_call rt]"
  using refreshTokens_store [of up rt srv] refreshTokens_calls [of up rt srv]
  by (simp add: refresh_call_def)

lemma proxyRequest_sent_bound:
  "\<exists>cs. calls (snd (proxyRequest up session sid method apiPath b srv)) = calls srv @ cs
        \<and> refresh_attempts cs \<le> 1 \<and> forward_attempts cs \<le> 2"
  by (auto simp: proxyRequest_def Let_def refresh_attempts_def forward_attempts_def refresh_call_def
           split: prod.splits option.splits sum.splits if_splits
           dest!: apiRequest_eq refreshTokens_eq)

lemma apiRequest_forward:
  "apiRequest up apiPath method (case b of None \<Rightarrow> NoBody | Some j \<Rightarrow> JsonBody j) token srv =
     (fst (up (calls srv) (forward_call apiPath method b token)),
      srv\<lparr> clock := clock srv + int (snd (up (calls srv) (forward_call apiPath method b token))),
           calls := calls srv @ [forward_call apiPath method b token] \<rparr>)"
  by (simp add: apiRequest_def forward_call_def Let_def split: prod.splits)

lemma refreshTokens_ok:
  assumes "fst (up (calls srv) (refresh_call rt)) = Some r" and "ok r" and "body r = TokenJson t"
  shows "refreshTokens up rt srv =
           (Inr (Some t), srv\<lparr> clock := clock srv + int (snd (up (calls srv) (refresh_call rt))),
                               calls := calls srv @ [refresh_call rt] \<rparr>)"
  using assms
  by (auto simp: refreshTokens_def apiRequest_def refresh_call_def Let_def split: prod.splits)

lemma proxyRequest_retry_401:
  assumes f1: "fst (up (calls srv) (forward_call apiPath method b (Some (accessToken s)))) = Some r1"
    and s1: "status r1 = 401"
    and rt: "refreshToken s = Some rt" "rt \<noteq> []"
    and f2: "fst (up (calls srv @ [forward_call apiPath method b (Some (accessToken s))]) (refresh_call rt)) = Some r2"
    and r2: "ok r2" "body r2 = TokenJson newTokens"
    and f3: "fst (up (calls srv @ [forward_call apiPath method b (Some (accessToken s)), refresh_call rt])
                 (forward_call apiPath method b (Some (access_token newTokens)))) = Some r3"
    and s3: "status r3 = 401"
  shows "fst (proxyRequest up (Some s) sid method apiPath b srv) = Inr session_expired"
    and "calls (snd (proxyRequest up (Some s) sid method apiPath b srv)) =
           calls srv @ [forward_call apiPath method b (Some (accessToken s)), refresh_call rt,
                        forward_call apiPath method b (Some (access_token newTokens))]"
proof -
  let ?c1 = "forward_call apiPath method b (Some (accessToken s))"
  let ?srv1 = "srv\<lparr> clock := clock srv + int (snd (up (calls srv) ?c1)), calls := calls srv @ [?c1] \<rparr>"
  let ?srv2 = "?srv1\<lparr> clock := clock ?srv1 + int (snd (up (calls ?srv1) (refresh_call rt))),
                        calls := calls ?srv1 @ [refresh_call rt] \<rparr>"
  let ?srv3 = "?srv2\<lparr> store := updateSession sid (refreshed newTokens (Some rt) (clock ?srv2)) (store ?srv2) \<rparr>"
  let ?c3 = "forward_call apiPath method b (Some (access_token newTokens))"
  let ?srv4 = "?srv3\<lparr> clock := clock ?srv3 + int (snd (up (calls ?srv3) ?c3)), calls := calls ?srv3 @ [?c3] \<rparr>"
  have rf: "refreshTokens up rt ?srv1 = (Inr (Some newTokens), ?srv2)"
    by (rule refreshTokens_ok) (use f2 r2 in simp_all)
  have tr: "if_truthy (refreshToken s) = Some rt"
    using rt by simp
  have f3': "fst (up (calls ?srv3) ?c3) = Some r3"
    using f3 by simp
  have "proxyRequest up (Some s) sid method apiPath b srv = (Inr (relay r3), ?srv4)"
    unfolding proxyRequest_def Let_def apiRequest_forward
    by (simp only: option.map f1 s1 tr rf f3' prod.case option.case if_True sum.case simp_thms)
  moreover have "relay r3 = session_expired"
    using s3 by (simp add: relay_def)
  ultimately show "fst (proxyRequest up (Some s) sid method apiPath b srv) = Inr session_expired"
    and "calls (snd (proxyRequest up (Some s) sid method apiPath b srv)) =
           calls srv @ [?c1, refresh_call rt, ?c3]"
    by simp_all
qed

section \<open>The retry bound of a forwarded call\<close>

text \<open>
  C2. Whatever the upstream answers, \<open>proxyRequest\<close> sends at most two forwarded calls
  and at most one refresh. When the forwarded call is answered 401, the refresh then
  yields new credentials and the retried call is answered 401 again, the calls sent are
  exactly the forwarded call, the refresh and the retry with the new access token: two
  forwarded attempts and one refresh attempt, and the client gets 401 "Session
  expired" with the cookie cleared.
\<close>

theorem proxyRequest_one_retry:
  "(\<exists>cs. calls (snd (proxyRequest up session sid method apiPath b srv)) = calls srv @ cs
         \<and> refresh_attempts cs \<le> 1 \<and> forward_attempts cs \<le> 2)
   \<and> (fst (up (calls srv) (forward_call apiPath method b (Some (accessToken s)))) = Some r1
        \<and> status r1 = 401
        \<and> refreshToken s = Some rt \<and> rt \<noteq> []
        \<and> fst (up (calls srv @ [forward_call apiPath method b (Some (accessToken s))]) (refresh_call rt)) = Some r2
        \<and> ok r2 \<and> body r2 = TokenJson newTokens
        \<and> fst (up (calls srv @ [forward_call apiPath method b (Some (accessToken s)), refresh_call rt])
                 (forward_call apiPath method b (Some (access_token newTokens)))) = Some r3
        \<and> status r3 = 401
       \<longrightarrow> fst (proxyRequest up (Some s) sid method apiPath b srv) = Inr session_expired
           \<and> sent srv (snd (proxyRequest up (Some s) sid method apiPath b srv))
               = [forward_call apiPath method b (Some (accessToken s)), refresh_call rt,
                  forward_call apiPath method b (Some (access_token newTokens))]
           \<and> forward_attempts (sent srv (snd (proxyRequest up (Some s) sid method apiPath b srv))) = 2
           \<and> refresh_attempts (sent srv (snd (proxyRequest up (Some s) sid method apiPath b srv))) = 1)"
proof (intro conjI impI)
  show "\<exists>cs. calls (snd (proxyRequest up session sid method apiPath b srv)) = calls srv @ cs
         \<and> refresh_attempts cs \<le> 1 \<and> forward_attempts cs \<le> 2"
    by (rule proxyRequest_sent_bound)
next
  assume a: "fst (up (calls srv) (forward_call apiPath method b (Some (accessToken s)))) = Some r1
        \<and> status r1 = 401
        \<and> refreshToken s = Some rt \<and> rt \<noteq> []
        \<and> fst (up (calls srv @ [forward_call apiPath method b (Some (accessToken s))]) (refresh_call rt)) = Some r2
        \<and> ok r2 \<and> body r2 = TokenJson newTokens
        \<and> fst (up (calls srv @ [forward_call apiPath method b (Some (accessToken s)), refresh_call rt])
                 (forward_call apiPath method b (Some (access_token newTokens)))) = Some r3
        \<and> status r3 = 401"
  then have r: "fst (proxyRequest up (Some s) sid method apiPath b srv) = Inr session_expired"
    and c: "calls (snd (proxyRequest up (Some s) sid method apiPath b srv)) =
           calls srv @ [forward_call apiPath method b (Some (accessToken s)), refresh_call rt,
                        forward_call apiPath method b (Some (access_token newTokens))]"
    using proxyRequest_retry_401 [of up srv apiPath "method" b s r1 rt r2 newTokens r3 sid] by auto
  show "fst (proxyRequest up (Some s) sid method apiPath b srv) = Inr session_expired" by (rule r)
  show s: "sent srv (snd (proxyRequest up (Some s) sid method apiPath b srv))
               = [forward_call apiPath method b (Some (accessToken s)), refresh_call rt,
                  forward_call apiPath method b (Some (access_token newTokens))]"
    by (simp add: sent_def c)
  show "forward_attempts (sent srv (snd (proxyRequest up (Some s) sid method apiPath b srv))) = 2"
    by (simp add: s forward_attempts_def forward_call_def refresh_call_def split: option.splits)
  show "refresh_attempts (sent srv (snd (proxyRequest up (Some s) sid method apiPath b srv))) = 1"
    by (simp add: s refresh_attempts_def forward_call_def refresh_call_def split: option.splits)
qed

theorem proxyRequest_one_retry_witness:
  "fst (answering tokens_A2 401 [] (forward_call ''/v1/users/me'' ''GET'' None (Some ''A1'')))
     = Some \<lparr> status = 401, contentType = None, body = Unparsable [] \<rparr>
   \<and> refreshToken (row ''A1'' (Some ''R1'') 5000000) = Some ''R1'' \<and> ''R1'' \<noteq> []
   \<and> fst (answering tokens_A2 401 [forward_call ''/v1/users/me'' ''GET'' None (Some ''A1'')] (refresh_call ''R1''))
       = Some (tokens_reply tokens_A2)
   \<and> ok (tokens_reply tokens_A2)
   \<and> fst (proxyRequest (answering tokens_A2 401) (Some (row ''A1'' (Some ''R1'') 5000000)) ''s1'' ''GET''
            ''/v1/users/me'' None (server_with (row ''A1'' (Some ''R1'') 5000000) 0)) = Inr session_expired
   \<and> sent (server_with (row ''A1'' (Some ''R1'') 5000000) 0)
        (snd (proxyRequest (answering tokens_A2 401) (Some (row ''A1'' (Some ''R1'') 5000000)) ''s1'' ''GET''
            ''/v1/users/me'' None (server_with (row ''A1'' (Some ''R1'') 5000000) 0)))
       = [forward_call ''/v1/users/me'' ''GET'' None (Some ''A1''), refresh_call ''R1'',
          forward_call ''/v1/users/me'' ''GET'' None (Some ''A2'')]
   \<and> forward_attempts (sent (server_with (row ''A1'' (Some ''R1'') 5000000) 0)
        (snd (proxyRequest (answering tokens_A2 401) (Some (row ''A1'' (Some ''R1'') 5000000)) ''s1'' ''GET''
            ''/v1/users/me'' None (server_with (row ''A1'' (Some ''R1'') 5000000) 0)))) = 2
   \<and> refresh_attempts (sent (server_with (row ''A1'' (Some ''R1'') 5000000) 0)
        (snd (proxyRequest (answering tokens_A2 401) (Some (row ''A1'' (Some ''R1'') 5000000)) ''s1'' ''GET''
            ''/v1/users/me'' None (server_with (row ''A1'' (Some ''R1'') 5000000) 0)))) = 1"
proof -
  have h: "fst (answering tokens_A2 401 (calls (server_with (row ''A1'' (Some ''R1'') 5000000) 0))
                 (forward_call ''/v1/users/me'' ''GET'' None (Some (accessToken (row ''A1'' (Some ''R1'') 5000000)))))
             = Some \<lparr> status = 401, contentType = None, body = Unparsable [] \<rparr>
        \<and> status \<lparr> status = 401, contentType = None, body = Unparsable [] \<rparr> = 401
        \<and> refreshToken (row ''A1'' (Some ''R1'') 5000000) = Some ''R1'' \<and> ''R1'' \<noteq> []
        \<and> fst (answering tokens_A2 401 (calls (server_with (row ''A1'' (Some ''R1'') 5000000) 0)
                  @ [forward_call ''/v1/users/me'' ''GET'' None (Some (accessToken (row ''A1'' (Some ''R1'') 5000000)))])
                 (refresh_call ''R1'')) = Some (tokens_reply tokens_A2)
        \<and> ok (tokens_reply tokens_A2) \<and> body (tokens_reply tokens_A2) = TokenJson tokens_A2
        \<and> fst (answering tokens_A2 401 (calls (server_with (row ''A1'' (Some ''R1'') 5000000) 0)
                  @ [forward_call ''/v1/users/me'' ''GET'' None (Some (accessToken (row ''A1'' (Some ''R1'') 5000000))),
                     refresh_call ''R1''])
                 (forward_call ''/v1/users/me'' ''GET'' None (Some (access_token tokens_A2))))
            = Some \<lparr> status = 401, contentType = None, body = Unparsable [] \<rparr>
        \<and> status \<lparr> status = 401, contentType = None, body = Unparsable [] \<rparr> = 401"
    by (simp add: answering_def forward_call_def refresh_call_def row_def tokens_reply_def ok_def)
  have a: "accessToken (row ''A1'' (Some ''R1'') 5000000) = ''A1''" "access_token tokens_A2 = ''A2''"
    by (simp_all add: row_def tokens_A2_def)
  show ?thesis
    using proxyRequest_one_retry [of "answering tokens_A2 401" "Some (row ''A1'' (Some ''R1'') 5000000)" "''s1''"
            "''GET''" "''/v1/users/me''" None "server_with (row ''A1'' (Some ''R1'') 5000000) 0"
            "row ''A1'' (Some ''R1'') 5000000"
            "\<lparr> status = 401, contentType = None, body = Unparsable [] \<rparr>" "''R1''"
            "tokens_reply tokens_A2" tokens_A2
            "\<lparr> status = 401, contentType = None, body = Unparsable [] \<rparr>"] h
    by (simp add: a server_with_def forward_attempts_def refresh_attempts_def forward_call_def refresh_call_def)
qed

section \<open>The refresh branches of requireAuth and proxyRequest\<close>

lemma answered_simps [simp]:
  "store (answered up c srv) = store srv"
  "calls (answered up c srv) = calls srv @ [c]"
  "clock (answered up c srv) = clock srv + int (snd (up (calls srv) c))"
  by (simp_all add: answered_def)

lemma apiRequest_answered:
  "apiRequest up apiPath method (case b of None \<Rightarrow> NoBody | Some j \<Rightarrow> JsonBody j) token srv =
     (fst (up (calls srv) (forward_call apiPath method b token)),
      answered up (forward_call apiPath method b token) srv)"
  by (simp add: apiRequest_forward answered_def)

lemma refreshTokens_answered: "snd (refreshTokens up rt srv) = answered up (refresh_call rt) srv"
  by (auto simp: refreshTokens_def apiRequest_def refresh_call_def answered_def Let_def
           split: prod.splits option.splits payload.splits)

lemma refreshTokens_cases:
  obtains (ill) "refreshTokens up rt srv = (Inl IllTypedBody, answered up (refresh_call rt) srv)"
    | (null) "refreshTokens up rt srv = (Inr None, answered up (refresh_call rt) srv)"
    | (tokens) t where "refreshTokens up rt srv = (Inr (Some t), answered up (refresh_call rt) srv)"
proof (cases "fst (refreshTokens up rt srv)")
  case (Inl e)
  then have "refreshTokens up rt srv = (Inl IllTypedBody, answered up (refresh_call rt) srv)"
    using refreshTokens_answered [of up rt srv] by (cases e) (simp add: prod_eq_iff)
  then show ?thesis by (rule ill)
next
  case (Inr r)
  then show ?thesis
    using refreshTokens_answered [of up rt srv] null tokens
    by (cases r) (simp_all add: prod_eq_iff)
qed

lemma requireAuth_refreshing:
  assumes "sid \<noteq> []" and "store srv sid = Some session"
    and "expiresAt session < clock srv + TOKEN_REFRESH_BUFFER_MS"
    and "refreshToken session = Some rt" and "rt \<noteq> []"
  shows "requireAuth up (Some sid) srv =
          (case fst (refreshTokens up rt srv) of
             Inl e \<Rightarrow> (Inl e, answered up (refresh_call rt) srv)
           | Inr None \<Rightarrow> (Inr (Responded session_expired), answered up (refresh_call rt) srv)
           | Inr (Some newTokens) \<Rightarrow>
               (Inr (Next (Some (spread session (refreshed newTokens (Some rt)
                                   (clock (answered up (refresh_call rt) srv))))) sid),
                (answered up (refresh_call rt) srv)
                  \<lparr> store := (store srv)(sid \<mapsto> spread session (refreshed newTokens (Some rt)
                                   (clock (answered up (refresh_call rt) srv)))) \<rparr>))"
proof (cases rule: refreshTokens_cases [of up rt srv])
  case ill
  with assms show ?thesis
    by (simp add: requireAuth_def getSessionId_def getSession_def)
next
  case null
  with assms show ?thesis
    by (simp add: requireAuth_def getSessionId_def getSession_def)
next
  case (tokens t)
  with assms show ?thesis
    by (simp add: requireAuth_def getSessionId_def getSession_def updateSession_def Let_def)
qed

lemma proxyRequest_refreshing:
  assumes "fst (up (calls srv) (forward_call apiPath method b (Some (accessToken s)))) = Some r1"
    and "status r1 = 401"
    and "refreshToken s = Some rt" and "rt \<noteq> []"
  shows "proxyRequest up (Some s) sid method apiPath b srv =
          (case fst (refreshTokens up rt (answered up (forward_call apiPath method b (Some (accessToken s))) srv)) of
             Inl e \<Rightarrow> (Inl e, answered up (refresh_call rt)
                                (answered up (forward_call apiPath method b (Some (accessToken s))) srv))
           | Inr None \<Rightarrow> (Inr session_expired, answered up (refresh_call rt)
                                (answered up (forward_call apiPath method b (Some (accessToken s))) srv))
           | Inr (Some newTokens) \<Rightarrow>
               (let srv2 = answered up (refresh_call rt)
                             (answered up (forward_call apiPath method b (Some (accessToken s))) srv);
                    srv3 = srv2\<lparr> store := updateSession sid (refreshed newTokens (Some rt) (clock srv2)) (store srv) \<rparr>
                in (case fst (up (calls srv3) (forward_call apiPath method b (Some (access_token newTokens)))) of
                      None \<Rightarrow> Inr internal_error
                    | Some response' \<Rightarrow> Inr (relay response'),
                    answered up (forward_call apiPath method b (Some (access_token newTokens))) srv3)))"
proof -
  let ?srv1 = "answered up (forward_call apiPath method b (Some (accessToken s))) srv"
  have tr: "if_truthy (refreshToken s) = Some rt"
    using assms(3,4) by simp
  show ?thesis
  proof (cases rule: refreshTokens_cases [of up rt ?srv1])
    case ill
    with assms(1,2) tr show ?thesis
      unfolding proxyRequest_def Let_def apiRequest_answered by simp
  next
    case null
    with assms(1,2) tr show ?thesis
      unfolding proxyRequest_def Let_def apiRequest_answered by simp
  next
    case (tokens t)
    with assms(1,2) tr show ?thesis
      unfolding proxyRequest_def Let_def apiRequest_answered
      by (simp split: option.splits)
  qed
qed

section \<open>Login, and the store after a reactive refresh\<close>

lemma login_ok:
  assumes "loginPincodeSchema_parse is_uuid reqBody = Some data"
    and "fst (up (calls srv) (login_call data)) = Some r" and "ok r" and "body r = TokenJson tokens"
  shows "auth_login_pincode is_uuid up reqBody sid srv =
           (Inr \<lparr> res_status = 200, res_body = Success, res_cookie = CookieSet sid \<rparr>,
            (answered up (login_call data) srv)
              \<lparr> store := (store srv)(sid \<mapsto>
                   \<lparr> accessToken = access_token tokens, refreshToken = refresh_token tokens,
                     expiresAt = clock (answered up (login_call data) srv) + expires_in tokens * 1000,
                     user = None, customer = None \<rparr>) \<rparr>)"
proof -
  have "apiRequest up ''/v2/authenticate/pincode'' ''POST'' (PincodeBody data) None srv =
          (Some r, answered up (login_call data) srv)"
    using assms(2) by (auto simp: apiRequest_def login_call_def answered_def Let_def split: prod.splits)
  with assms(1,3,4) show ?thesis
    by (simp add: auth_login_pincode_def createSession_def Let_def)
qed

lemma proxyRequest_refreshed_store:
  assumes "fst (up (calls srv) (forward_call apiPath method b (Some (accessToken s)))) = Some r1"
    and "status r1 = 401"
    and "refreshToken s = Some rt" and "rt \<noteq> []"
    and "fst (refreshTokens up rt (answered up (forward_call apiPath method b (Some (accessToken s))) srv))
           = Inr (Some newTokens)"
  shows "store (snd (proxyRequest up (Some s) sid method apiPath b srv)) =
           updateSession sid
             (refreshed newTokens (Some rt)
                (clock (answered up (refresh_call rt)
                          (answered up (forward_call apiPath method b (Some (accessToken s))) srv))))
             (store srv)"
  using proxyRequest_refreshing [of up srv apiPath "method" b s r1 rt sid] assms
  by (simp add: Let_def)

text \<open>The definitions that evaluate the handlers on concrete inputs.\<close>

lemmas eval_defs =
  requireAuth_def proxyRequest_def refreshTokens_def apiRequest_def auth_login_pincode_def
  loginPincodeSchema_parse_def createSession_def updateSession_def getSession_def getSessionId_def
  spread_def refreshed_def or_else_def relay_def ok_def
  answering_def always_def tokens_reply_def reply_401_def tokens_A1_def tokens_A2_def tokens_A3_def
  pincode_request_def server_with_def empty_server_def row_def
  refresh_call_def forward_call_def login_call_def answered_def sent_def
  TOKEN_REFRESH_BUFFER_MS_def session_expired_def Let_def

section \<open>Where expiresAt comes from\<close>

text \<open>
  C6. The stored \<open>expiresAt\<close> is the time of issuance or refresh plus the lifetime the
  upstream reported, in milliseconds: \<open>createSession\<close> stores \<open>now + expires_in * 1000\<close>;
  after a successful pincode login the row under the new session id expires at the
  clock of the state the login leaves (the reply has arrived, the row is written) plus
  \<open>expires_in * 1000\<close>; and after a successful refresh, proactive in \<open>requireAuth\<close> or
  reactive in \<open>proxyRequest\<close>, the row expires at the clock of the state in which the
  refresh was answered plus the new \<open>expires_in * 1000\<close>, whatever the old \<open>expiresAt\<close>
  was.
\<close>

theorem expiresAt_from_expires_in:
  "map_option expiresAt (snd (createSession sid now tokens u c m) sid) = Some (now + expires_in tokens * 1000)
   \<and> (loginPincodeSchema_parse is_uuid reqBody = Some data
        \<and> fst (up (calls srv) (login_call data)) = Some r \<and> ok r \<and> body r = TokenJson tokens
       \<longrightarrow> map_option expiresAt (store (snd (auth_login_pincode is_uuid up reqBody sid srv)) sid)
            = Some (clock (snd (auth_login_pincode is_uuid up reqBody sid srv)) + expires_in tokens * 1000))
   \<and> (sid \<noteq> [] \<and> store srv sid = Some session
        \<and> expiresAt session < clock srv + TOKEN_REFRESH_BUFFER_MS
        \<and> refreshToken session = Some rt \<and> rt \<noteq> []
        \<and> fst (refreshTokens up rt srv) = Inr (Some newTokens)
       \<longrightarrow> map_option expiresAt (store (snd (requireAuth up (Some sid) srv)) sid)
            = Some (clock (snd (requireAuth up (Some sid) srv)) + expires_in newTokens * 1000))
   \<and> (store srv sid = Some session
        \<and> fst (up (calls srv) (forward_call apiPath verb b (Some (accessToken session)))) = Some r1
        \<and> status r1 = 401
        \<and> refreshToken session = Some rt \<and> rt \<noteq> []
        \<and> fst (refreshTokens up rt (answered up (forward_call apiPath verb b (Some (accessToken session))) srv))
            = Inr (Some newTokens)
       \<longrightarrow> map_option expiresAt (store (snd (proxyRequest up (Some session) sid verb apiPath b srv)) sid)
            = Some (clock (answered up (refresh_call rt)
                             (answered up (forward_call apiPath verb b (Some (accessToken session))) srv))
                    + expires_in newTokens * 1000))"
proof (intro conjI impI)
  show "map_option expiresAt (snd (createSession sid now tokens u c m) sid) = Some (now + expires_in tokens * 1000)"
    by (simp add: createSession_def)
next
  assume "loginPincodeSchema_parse is_uuid reqBody = Some data
        \<and> fst (up (calls srv) (login_call data)) = Some r \<and> ok r \<and> body r = TokenJson tokens"
  then show "map_option expiresAt (store (snd (auth_login_pincode is_uuid up reqBody sid srv)) sid)
            = Some (clock (snd (auth_login_pincode is_uuid up reqBody sid srv)) + expires_in tokens * 1000)"
    using login_ok [of is_uuid reqBody data up srv r tokens sid] by simp
next
  assume a: "sid \<noteq> [] \<and> store srv sid = Some session
        \<and> expiresAt session < clock srv + TOKEN_REFRESH_BUFFER_MS
        \<and> refreshToken session = Some rt \<and> rt \<noteq> []
        \<and> fst (refreshTokens up rt srv) = Inr (Some newTokens)"
  then have "requireAuth up (Some sid) srv =
          (case fst (refreshTokens up rt srv) of
             Inl e \<Rightarrow> (Inl e, answered up (refresh_call rt) srv)
           | Inr None \<Rightarrow> (Inr (Responded session_expired), answered up (refresh_call rt) srv)
           | Inr (Some newTokens) \<Rightarrow>
               (Inr (Next (Some (spread session (refreshed newTokens (Some rt)
                                   (clock (answered up (refresh_call rt) srv))))) sid),
                (answered up (refresh_call rt) srv)
                  \<lparr> store := (store srv)(sid \<mapsto> spread session (refreshed newTokens (Some rt)
                                   (clock (answered up (refresh_call rt) srv)))) \<rparr>))"
    by (intro requireAuth_refreshing) simp_all
  with a show "map_option expiresAt (store (snd (requireAuth up (Some sid) srv)) sid)
            = Some (clock (snd (requireAuth up (Some sid) srv)) + expires_in newTokens * 1000)"
    by (simp add: spread_def refreshed_def)
next
  assume a: "store srv sid = Some session
        \<and> fst (up (calls srv) (forward_call apiPath verb b (Some (accessToken session)))) = Some r1
        \<and> status r1 = 401
        \<and> refreshToken session = Some rt \<and> rt \<noteq> []
        \<and> fst (refreshTokens up rt (answered up (forward_call apiPath verb b (Some (accessToken session))) srv))
            = Inr (Some newTokens)"
  then have "store (snd (proxyRequest up (Some session) sid verb apiPath b srv)) =
           updateSession sid
             (refreshed newTokens (Some rt)
                (clock (answered up (refresh_call rt)
                          (answered up (forward_call apiPath verb b (Some (accessToken session))) srv))))
             (store srv)"
    by (intro proxyRequest_refreshed_store [where ?r1.0 = r1]) simp_all
  with a show "map_option expiresAt (store (snd (proxyRequest up (Some session) sid verb apiPath b srv)) sid)
            = Some (clock (answered up (refresh_call rt)
                             (answered up (forward_call apiPath verb b (Some (accessToken session))) srv))
                    + expires_in newTokens * 1000)"
    by (simp add: updateSession_def spread_def refreshed_def)
qed

theorem expiresAt_from_expires_in_witness:
  "loginPincodeSchema_parse (\<lambda>u. length u = 36) pincode_request = Some pincode_request
   \<and> fst (always (Some (tokens_reply tokens_A1)) 7 (calls (empty_server 1000)) (login_call pincode_request))
       = Some (tokens_reply tokens_A1)
   \<and> ok (tokens_reply tokens_A1) \<and> body (tokens_reply tokens_A1) = TokenJson tokens_A1
   \<and> map_option expiresAt
        (store (snd (auth_login_pincode (\<lambda>u. length u = 36) (always (Some (tokens_reply tokens_A1)) 7)
                       pincode_request ''s1'' (empty_server 1000))) ''s1'')
       = Some (1007 + 3600 * 1000)
   \<and> ''s1'' \<noteq> []
   \<and> store (server_with (row ''A1'' (Some ''R1'') 60000) 0) ''s1'' = Some (row ''A1'' (Some ''R1'') 60000)
   \<and> expiresAt (row ''A1'' (Some ''R1'') 60000)
       < clock (server_with (row ''A1'' (Some ''R1'') 60000) 0) + TOKEN_REFRESH_BUFFER_MS
   \<and> refreshToken (row ''A1'' (Some ''R1'') 60000) = Some ''R1''
   \<and> fst (refreshTokens (answering tokens_A2 200) ''R1'' (server_with (row ''A1'' (Some ''R1'') 60000) 0))
       = Inr (Some tokens_A2)
   \<and> map_option expiresAt
        (store (snd (requireAuth (answering tokens_A2 200) (Some ''s1'')
                       (server_with (row ''A1'' (Some ''R1'') 60000) 0))) ''s1'')
       = Some (0 + 3600 * 1000)
   \<and> fst (answering tokens_A2 401 (calls (server_with (row ''A1'' (Some ''R1'') 5000000) 0))
            (forward_call ''/v1/users/me'' ''GET'' None (Some ''A1''))) = Some reply_401
   \<and> status reply_401 = 401
   \<and> map_option expiresAt
        (store (snd (proxyRequest (answering tokens_A2 401) (Some (row ''A1'' (Some ''R1'') 5000000)) ''s1''
                       ''GET'' ''/v1/users/me'' None (server_with (row ''A1'' (Some ''R1'') 5000000) 0))) ''s1'')
       = Some (0 + 3600 * 1000)"
  using expiresAt_from_expires_in [where sid = "''s1''" and is_uuid = "\<lambda>u. length u = 36"
          and reqBody = pincode_request and data = pincode_request
          and up = "always (Some (tokens_reply tokens_A1)) 7" and srv = "empty_server 1000"
          and r = "tokens_reply tokens_A1" and tokens = tokens_A1]
        expiresAt_from_expires_in [where sid = "''s1''"
          and up = "answering tokens_A2 200" and srv = "server_with (row ''A1'' (Some ''R1'') 60000) 0"
          and session = "row ''A1'' (Some ''R1'') 60000" and rt = "''R1''" and newTokens = tokens_A2]
        expiresAt_from_expires_in [where sid = "''s1''"
          and up = "answering tokens_A2 401" and srv = "server_with (row ''A1'' (Some ''R1'') 5000000) 0"
          and session = "row ''A1'' (Some ''R1'') 5000000" and rt = "''R1''" and newTokens = tokens_A2
          and apiPath = "''/v1/users/me''" and verb = "''GET''" and b = None and ?r1.0 = reply_401]
  by (simp add: eval_defs)

section \<open>Login, then resolve\<close>

text \<open>
  C7. After a pincode login whose body passes the schema and which the upstream answers
  2xx with credentials that live at least as long as the refresh buffer (300 s; the
  scenario's 3600 s do), the route answers \<open>{success: true}\<close> and sets the cookie to the
  new session id; \<open>requireAuth\<close> with that cookie, run on the state the login left,
  sends nothing upstream, changes nothing and calls \<open>next()\<close> with a session whose access
  token and refresh token are exactly the issued ones.
\<close>

theorem login_then_resolve:
  assumes "loginPincodeSchema_parse is_uuid reqBody = Some data"
    and "fst (up (calls srv) (login_call data)) = Some r" and "ok r" and "body r = TokenJson tokens"
    and "TOKEN_REFRESH_BUFFER_MS \<le> expires_in tokens * 1000" and "sid \<noteq> []"
  shows "fst (auth_login_pincode is_uuid up reqBody sid srv)
           = Inr \<lparr> res_status = 200, res_body = Success, res_cookie = CookieSet sid \<rparr>
         \<and> (\<exists>session.
               requireAuth up' (Some sid) (snd (auth_login_pincode is_uuid up reqBody sid srv))
                 = (Inr (Next (Some session) sid), snd (auth_login_pincode is_uuid up reqBody sid srv))
               \<and> accessToken session = access_token tokens
               \<and> refreshToken session = refresh_token tokens)"
proof -
  have eq: "auth_login_pincode is_uuid up reqBody sid srv =
           (Inr \<lparr> res_status = 200, res_body = Success, res_cookie = CookieSet sid \<rparr>,
            (answered up (login_call data) srv)
              \<lparr> store := (store srv)(sid \<mapsto>
                   \<lparr> accessToken = access_token tokens, refreshToken = refresh_token tokens,
                     expiresAt = clock (answered up (login_call data) srv) + expires_in tokens * 1000,
                     user = None, customer = None \<rparr>) \<rparr>)"
    using assms(1-4) by (rule login_ok)
  have "0 \<le> TOKEN_REFRESH_BUFFER_MS"
    by (simp add: TOKEN_REFRESH_BUFFER_MS_def)
  with assms(5,6) show ?thesis
    unfolding eq by (simp add: requireAuth_def getSessionId_def getSession_def)
qed

theorem login_then_resolve_witness:
  "loginPincodeSchema_parse (\<lambda>u. length u = 36) pincode_request = Some pincode_request
   \<and> fst (always (Some (tokens_reply tokens_A1)) 7 (calls (empty_server 1000)) (login_call pincode_request))
       = Some (tokens_reply tokens_A1)
   \<and> ok (tokens_reply tokens_A1) \<and> body (tokens_reply tokens_A1) = TokenJson tokens_A1
   \<and> TOKEN_REFRESH_BUFFER_MS \<le> expires_in tokens_A1 * 1000 \<and> ''s1'' \<noteq> []
   \<and> fst (auth_login_pincode (\<lambda>u. length u = 36) (always (Some (tokens_reply tokens_A1)) 7)
             pincode_request ''s1'' (empty_server 1000))
       = Inr \<lparr> res_status = 200, res_body = Success, res_cookie = CookieSet ''s1'' \<rparr>
   \<and> fst (requireAuth (always None 0) (Some ''s1'')
            (snd (auth_login_pincode (\<lambda>u. length u = 36) (always (Some (tokens_reply tokens_A1)) 7)
                    pincode_request ''s1'' (empty_server 1000))))
       = Inr (Next (Some (row ''A1'' (Some ''R1'') 3601007)) ''s1'')"
  using login_then_resolve [where is_uuid = "\<lambda>u. length u = 36"
          and reqBody = pincode_request and data = pincode_request
          and up = "always (Some (tokens_reply tokens_A1)) 7" and srv = "empty_server 1000"
          and r = "tokens_reply tokens_A1" and tokens = tokens_A1 and sid = "''s1''"
          and up' = "always None 0"]
  by (simp add: eval_defs)

section \<open>Failed refresh and failed retry\<close>

text \<open>
  C3, as stated: after a failed refresh the session row is deleted. It fails: with an
  upstream that cannot be reached, \<open>requireAuth\<close> on a session near expiry finds the
  refresh failed, answers 401, and the row is still in the store.
\<close>

theorem refresh_failure_keeps_row_counterexample:
  "fst (refreshTokens (always None 0) ''R1'' (server_with (row ''A1'' (Some ''R1'') 60000) 0)) = Inr None
   \<and> fst (requireAuth (always None 0) (Some ''s1'') (server_with (row ''A1'' (Some ''R1'') 60000) 0))
       = Inr (Responded session_expired)
   \<and> getSession ''s1'' (store (snd (requireAuth (always None 0) (Some ''s1'')
        (server_with (row ''A1'' (Some ''R1'') 60000) 0)))) = Some (row ''A1'' (Some ''R1'') 60000)"
  by (simp add: requireAuth_def refreshTokens_def apiRequest_def always_def server_with_def row_def
        getSessionId_def getSession_def TOKEN_REFRESH_BUFFER_MS_def Let_def)

text \<open>
  C3, amended: whenever a refresh fails (proactively in \<open>requireAuth\<close>, or reactively in
  \<open>proxyRequest\<close> after a 401), or the retried call after a successful refresh is
  answered 401 again, the client gets 401 "Session expired" with the cookie cleared, and
  the row is not deleted: after a failed refresh the store is the one before the
  request, and after the failed retry the row holds the refreshed credentials.
\<close>

theorem failed_refresh_reports_401_keeps_row:
  "(sid \<noteq> [] \<and> store srv sid = Some session
      \<and> expiresAt session < clock srv + TOKEN_REFRESH_BUFFER_MS
      \<and> refreshToken session = Some rt \<and> rt \<noteq> []
      \<and> fst (refreshTokens up rt srv) = Inr None
     \<longrightarrow> fst (requireAuth up (Some sid) srv) = Inr (Responded session_expired)
         \<and> store (snd (requireAuth up (Some sid) srv)) = store srv)
   \<and> (fst (up (calls srv) (forward_call apiPath verb b (Some (accessToken s)))) = Some r1
      \<and> status r1 = 401
      \<and> refreshToken s = Some rt \<and> rt \<noteq> []
      \<and> fst (refreshTokens up rt (answered up (forward_call apiPath verb b (Some (accessToken s))) srv))
          = Inr None
     \<longrightarrow> fst (proxyRequest up (Some s) sid verb apiPath b srv) = Inr session_expired
         \<and> store (snd (proxyRequest up (Some s) sid verb apiPath b srv)) = store srv)
   \<and> (store srv sid = Some s
      \<and> fst (up (calls srv) (forward_call apiPath verb b (Some (accessToken s)))) = Some r1
      \<and> status r1 = 401
      \<and> refreshToken s = Some rt \<and> rt \<noteq> []
      \<and> fst (refreshTokens up rt (answered up (forward_call apiPath verb b (Some (accessToken s))) srv))
          = Inr (Some newTokens)
      \<and> fst (up (calls srv @ [forward_call apiPath verb b (Some (accessToken s)), refresh_call rt])
                (forward_call apiPath verb b (Some (access_token newTokens)))) = Some r3
      \<and> status r3 = 401
     \<longrightarrow> fst (proxyRequest up (Some s) sid verb apiPath b srv) = Inr session_expired
         \<and> getSession sid (store (snd (proxyRequest up (Some s) sid verb apiPath b srv)))
             = Some (spread s (refreshed newTokens (Some rt)
                  (clock (answered up (refresh_call rt)
                     (answered up (forward_call apiPath verb b (Some (accessToken s))) srv))))))"
proof (intro conjI impI)
  assume a: "sid \<noteq> [] \<and> store srv sid = Some session
      \<and> expiresAt session < clock srv + TOKEN_REFRESH_BUFFER_MS
      \<and> refreshToken session = Some rt \<and> rt \<noteq> []
      \<and> fst (refreshTokens up rt srv) = Inr None"
  then have eq: "requireAuth up (Some sid) srv =
          (case fst (refreshTokens up rt srv) of
             Inl e \<Rightarrow> (Inl e, answered up (refresh_call rt) srv)
           | Inr None \<Rightarrow> (Inr (Responded session_expired), answered up (refresh_call rt) srv)
           | Inr (Some newTokens) \<Rightarrow>
               (Inr (Next (Some (spread session (refreshed newTokens (Some rt)
                                   (clock (answered up (refresh_call rt) srv))))) sid),
                (answered up (refresh_call rt) srv)
                  \<lparr> store := (store srv)(sid \<mapsto> spread session (refreshed newTokens (Some rt)
                                   (clock (answered up (refresh_call rt) srv)))) \<rparr>))"
    by (intro requireAuth_refreshing) simp_all
  from a show "fst (requireAuth up (Some sid) srv) = Inr (Responded session_expired)"
    unfolding eq by simp
  from a show "store (snd (requireAuth up (Some sid) srv)) = store srv"
    unfolding eq by simp
next
  assume a: "fst (up (calls srv) (forward_call apiPath verb b (Some (accessToken s)))) = Some r1
      \<and> status r1 = 401
      \<and> refreshToken s = Some rt \<and> rt \<noteq> []
      \<and> fst (refreshTokens up rt (answered up (forward_call apiPath verb b (Some (accessToken s))) srv))
          = Inr None"
  then have eq: "proxyRequest up (Some s) sid verb apiPath b srv =
      (Inr session_expired, answered up (refresh_call rt)
         (answered up (forward_call apiPath verb b (Some (accessToken s))) srv))"
    using proxyRequest_refreshing [of up srv apiPath verb b s r1 rt sid] by simp
  show "fst (proxyRequest up (Some s) sid verb apiPath b srv) = Inr session_expired"
    unfolding eq by simp
  show "store (snd (proxyRequest up (Some s) sid verb apiPath b srv)) = store srv"
    unfolding eq by simp
next
  assume a: "store srv sid = Some s
      \<and> fst (up (calls srv) (forward_call apiPath verb b (Some (accessToken s)))) = Some r1
      \<and> status r1 = 401
      \<and> refreshToken s = Some rt \<and> rt \<noteq> []
      \<and> fst (refreshTokens up rt (answered up (forward_call apiPath verb b (Some (accessToken s))) srv))
          = Inr (Some newTokens)
      \<and> fst (up (calls srv @ [forward_call apiPath verb b (Some (accessToken s)), refresh_call rt])
                (forward_call apiPath verb b (Some (access_token newTokens)))) = Some r3
      \<and> status r3 = 401"
  then have eq: "proxyRequest up (Some s) sid verb apiPath b srv =
      (Inr (relay r3),
       answered up (forward_call apiPath verb b (Some (access_token newTokens)))
         ((answered up (refresh_call rt)
            (answered up (forward_call apiPath verb b (Some (accessToken s))) srv))
          \<lparr> store := updateSession sid (refreshed newTokens (Some rt)
               (clock (answered up (refresh_call rt)
                  (answered up (forward_call apiPath verb b (Some (accessToken s))) srv)))) (store srv) \<rparr>))"
    using proxyRequest_refreshing [of up srv apiPath verb b s r1 rt sid] by (simp add: Let_def)
  from a show "fst (proxyRequest up (Some s) sid verb apiPath b srv) = Inr session_expired"
    unfolding eq by (simp add: relay_def)
  from a show "getSession sid (store (snd (proxyRequest up (Some s) sid verb apiPath b srv)))
             = Some (spread s (refreshed newTokens (Some rt)
                  (clock (answered up (refresh_call rt)
                     (answered up (forward_call apiPath verb b (Some (accessToken s))) srv)))))"
    unfolding eq by (simp add: getSession_def updateSession_def)
qed

theorem failed_refresh_reports_401_keeps_row_witness:
  "''s1'' \<noteq> []
   \<and> store (server_with (row ''A1'' (Some ''R1'') 60000) 0) ''s1'' = Some (row ''A1'' (Some ''R1'') 60000)
   \<and> expiresAt (row ''A1'' (Some ''R1'') 60000)
       < clock (server_with (row ''A1'' (Some ''R1'') 60000) 0) + TOKEN_REFRESH_BUFFER_MS
   \<and> refreshToken (row ''A1'' (Some ''R1'') 60000) = Some ''R1''
   \<and> fst (refreshTokens (always None 0) ''R1'' (server_with (row ''A1'' (Some ''R1'') 60000) 0)) = Inr None
   \<and> fst (requireAuth (always None 0) (Some ''s1'') (server_with (row ''A1'' (Some ''R1'') 60000) 0))
       = Inr (Responded session_expired)
   \<and> store (snd (requireAuth (always None 0) (Some ''s1'') (server_with (row ''A1'' (Some ''R1'') 60000) 0)))
       = store (server_with (row ''A1'' (Some ''R1'') 60000) 0)
   \<and> fst (always (Some reply_401) 0 (calls (server_with (row ''A1'' (Some ''R1'') 5000000) 0))
            (forward_call ''/v1/users/me'' ''GET'' None (Some ''A1''))) = Some reply_401
   \<and> status reply_401 = 401
   \<and> fst (refreshTokens (always (Some reply_401) 0) ''R1''
            (answered (always (Some reply_401) 0) (forward_call ''/v1/users/me'' ''GET'' None (Some ''A1''))
               (server_with (row ''A1'' (Some ''R1'') 5000000) 0))) = Inr None
   \<and> fst (proxyRequest (always (Some reply_401) 0) (Some (row ''A1'' (Some ''R1'') 5000000)) ''s1''
            ''GET'' ''/v1/users/me'' None (server_with (row ''A1'' (Some ''R1'') 5000000) 0))
       = Inr session_expired
   \<and> store (snd (proxyRequest (always (Some reply_401) 0) (Some (row ''A1'' (Some ''R1'') 5000000)) ''s1''
            ''GET'' ''/v1/users/me'' None (server_with (row ''A1'' (Some ''R1'') 5000000) 0)))
       = store (server_with (row ''A1'' (Some ''R1'') 5000000) 0)
   \<and> fst (refreshTokens (answering tokens_A2 401) ''R1''
            (answered (answering tokens_A2 401) (forward_call ''/v1/users/me'' ''GET'' None (Some ''A1''))
               (server_with (row ''A1'' (Some ''R1'') 5000000) 0))) = Inr (Some tokens_A2)
   \<and> fst (proxyRequest (answering tokens_A2 401) (Some (row ''A1'' (Some ''R1'') 5000000)) ''s1''
            ''GET'' ''/v1/users/me'' None (server_with (row ''A1'' (Some ''R1'') 5000000) 0))
       = Inr session_expired
   \<and> getSession ''s1''
        (store (snd (proxyRequest (answering tokens_A2 401) (Some (row ''A1'' (Some ''R1'') 5000000)) ''s1''
            ''GET'' ''/v1/users/me'' None (server_with (row ''A1'' (Some ''R1'') 5000000) 0))))
       = Some (row ''A2'' (Some ''R1'') 3600000)"
  using failed_refresh_reports_401_keeps_row [where sid = "''s1''"
          and srv = "server_with (row ''A1'' (Some ''R1'') 60000) 0"
          and session = "row ''A1'' (Some ''R1'') 60000" and rt = "''R1''" and up = "always None 0"]
        failed_refresh_reports_401_keeps_row [where sid = "''s1''"
          and srv = "server_with (row ''A1'' (Some ''R1'') 5000000) 0"
          and s = "row ''A1'' (Some ''R1'') 5000000" and rt = "''R1''"
          and up = "always (Some reply_401) 0"
          and apiPath = "''/v1/users/me''" and verb = "''GET''" and b = None and ?r1.0 = reply_401]
        failed_refresh_reports_401_keeps_row [where sid = "''s1''"
          and srv = "server_with (row ''A1'' (Some ''R1'') 5000000) 0"
          and s = "row ''A1'' (Some ''R1'') 5000000" and rt = "''R1''"
          and up = "answering tokens_A2 401" and newTokens = tokens_A2
          and apiPath = "''/v1/users/me''" and verb = "''GET''" and b = None
          and ?r1.0 = reply_401 and ?r3.0 = reply_401]
  by (simp add: eval_defs)

section \<open>Overlapping requests for one session\<close>

text \<open>
  The two halves of \<open>requireAuth\<close> with the upstream's answer in between are
  \<open>requireAuth\<close>, and a request that runs alone on the event loop does what
  \<open>requireAuth\<close> does.
\<close>

lemma refreshTokens_split:
  "refreshTokens up rt srv =
     (refresh_result (fst (up (calls srv) (refresh_call rt))), answered up (refresh_call rt) srv)"
  by (auto simp: refreshTokens_def refresh_result_def apiRequest_def refresh_call_def answered_def Let_def
           split: prod.splits option.splits payload.splits)

lemma requireAuth_split:
  "requireAuth up cooky srv =
     (case requireAuth_begin cooky srv of
        Finished r \<Rightarrow> (Inr r, srv)
      | Suspended p \<Rightarrow>
          requireAuth_resume p
            (refresh_result (fst (up (calls srv) (refresh_call (pending_refreshToken p)))))
            (answered up (refresh_call (pending_refreshToken p)) srv))"
  by (auto simp: requireAuth_def requireAuth_begin_def requireAuth_resume_def refreshTokens_split Let_def
           split: option.splits sum.splits)

lemma calls_then_clock:
  "srv\<lparr> calls := cs, clock := t \<rparr> = srv\<lparr> clock := t, calls := cs \<rparr>"
  by (cases srv) simp

lemma run_alone:
  "run (idle srv)
     (case requireAuth_begin cooky srv of
        Finished r \<Rightarrow> [Arrive 0 cooky]
      | Suspended p \<Rightarrow>
          [Arrive 0 cooky,
           Deliver (snd (up (calls srv) (refresh_call (pending_refreshToken p)))) 0
                   (fst (up (calls srv) (refresh_call (pending_refreshToken p))))])
   = \<lparr> node_server = snd (requireAuth up cooky srv), waiting = [],
       finished = [fst (requireAuth up cooky srv)] \<rparr>"
  by (cases "requireAuth_begin cooky srv")
     (simp_all add: run_def idle_def requireAuth_split answered_def calls_then_clock Let_def
                    split: prod.splits)

lemma requireAuth_begin_suspends:
  assumes "sid \<noteq> []" and "store srv sid = Some session"
    and "expiresAt session < clock srv + TOKEN_REFRESH_BUFFER_MS"
    and "refreshToken session = Some rt" and "rt \<noteq> []"
  shows "requireAuth_begin (Some sid) srv =
           Suspended \<lparr> pending_sessionId = sid, pending_session = session, pending_refreshToken = rt \<rparr>"
  using assms by (simp add: requireAuth_begin_def getSessionId_def getSession_def)

lemma arrivals_all_suspend:
  assumes "sid \<noteq> []" and "store (node_server n) sid = Some session"
    and "expiresAt session < clock (node_server n) + TOKEN_REFRESH_BUFFER_MS"
    and "refreshToken session = Some rt" and "rt \<noteq> []"
  shows "waiting (run n (map (\<lambda>d. Arrive d (Some sid)) ds)) =
           waiting n @ replicate (length ds)
             \<lparr> pending_sessionId = sid, pending_session = session, pending_refreshToken = rt \<rparr>
         \<and> calls (node_server (run n (map (\<lambda>d. Arrive d (Some sid)) ds))) =
             calls (node_server n) @ replicate (length ds) (refresh_call rt)
         \<and> store (node_server (run n (map (\<lambda>d. Arrive d (Some sid)) ds))) = store (node_server n)"
  using assms(2,3)
proof (induction ds arbitrary: n)
  case Nil
  then show ?case by (simp add: run_def)
next
  case (Cons d ds)
  let ?srv = "(node_server n)\<lparr> clock := clock (node_server n) + int d \<rparr>"
  let ?p = "\<lparr> pending_sessionId = sid, pending_session = session, pending_refreshToken = rt \<rparr>"
  define n' where "n' = step n (Arrive d (Some sid))"
  have near: "expiresAt session < clock ?srv + TOKEN_REFRESH_BUFFER_MS"
    using Cons.prems(2) by simp
  have "requireAuth_begin (Some sid) ?srv = Suspended ?p"
    using assms(1) _ near assms(4,5) by (rule requireAuth_begin_suspends) (simp add: Cons.prems(1))
  then have st: "n' = n\<lparr> node_server := ?srv\<lparr> calls := calls ?srv @ [refresh_call rt] \<rparr>,
                          waiting := waiting n @ [?p] \<rparr>"
    by (simp add: n'_def Let_def)
  have "store (node_server n') sid = Some session"
    and "expiresAt session < clock (node_server n') + TOKEN_REFRESH_BUFFER_MS"
    using Cons.prems near by (simp_all add: st)
  from Cons.IH [OF this] have ih:
    "waiting (run n' (map (\<lambda>d. Arrive d (Some sid)) ds)) = waiting n' @ replicate (length ds) ?p
     \<and> calls (node_server (run n' (map (\<lambda>d. Arrive d (Some sid)) ds))) =
         calls (node_server n') @ replicate (length ds) (refresh_call rt)
     \<and> store (node_server (run n' (map (\<lambda>d. Arrive d (Some sid)) ds))) = store (node_server n')" .
  have "run n (map (\<lambda>d. Arrive d (Some sid)) (d # ds)) = run n' (map (\<lambda>d. Arrive d (Some sid)) ds)"
    by (simp add: run_def n'_def)
  with ih show ?case
    by (simp add: st replicate_app_Cons_same)
qed

lemma is_refresh_calls:
  "is_refresh (refresh_call rt)" "\<not> is_refresh (forward_call apiPath verb b token)"
  by (simp_all add: refresh_call_def forward_call_def split: option.splits)

lemma proxyRequest_refresh_once:
  assumes "fst (up (calls srv) (forward_call apiPath verb b (Some (accessToken s)))) = Some r1"
    and "status r1 = 401"
    and "refreshToken s = Some rt" and "rt \<noteq> []"
  shows "refresh_attempts (sent srv (snd (proxyRequest up (Some s) sid verb apiPath b srv))) = 1"
proof -
  have "proxyRequest up (Some s) sid verb apiPath b srv =
          (case fst (refreshTokens up rt (answered up (forward_call apiPath verb b (Some (accessToken s))) srv)) of
             Inl e \<Rightarrow> (Inl e, answered up (refresh_call rt)
                                (answered up (forward_call apiPath verb b (Some (accessToken s))) srv))
           | Inr None \<Rightarrow> (Inr session_expired, answered up (refresh_call rt)
                                (answered up (forward_call apiPath verb b (Some (accessToken s))) srv))
           | Inr (Some newTokens) \<Rightarrow>
               (let srv2 = answered up (refresh_call rt)
                             (answered up (forward_call apiPath verb b (Some (accessToken s))) srv);
                    srv3 = srv2\<lparr> store := updateSession sid (refreshed newTokens (Some rt) (clock srv2)) (store srv) \<rparr>
                in (case fst (up (calls srv3) (forward_call apiPath verb b (Some (access_token newTokens)))) of
                      None \<Rightarrow> Inr internal_error
                    | Some response' \<Rightarrow> Inr (relay response'),
                    answered up (forward_call apiPath verb b (Some (access_token newTokens))) srv3)))"
    using assms by (rule proxyRequest_refreshing)
  then show ?thesis
    by (simp add: sent_def refresh_attempts_def is_refresh_calls Let_def del: is_refresh.simps
             split: sum.splits option.splits)
qed

text \<open>
  C1, as stated: at most one refresh exchange is in flight per session id. It fails: two
  requests with the cookie \<open>s1\<close> arrive one millisecond apart while the session is 60 s
  from expiry; both find it near expiry, both send the refresh call, and two refresh
  exchanges for \<open>s1\<close> are in flight.
\<close>

theorem two_refreshes_in_flight_counterexample:
  "in_flight ''s1'' (run (idle (server_with (row ''A1'' (Some ''R1'') 60000) 0))
                        [Arrive 0 (Some ''s1''), Arrive 1 (Some ''s1'')]) = 2
   \<and> calls (node_server (run (idle (server_with (row ''A1'' (Some ''R1'') 60000) 0))
                        [Arrive 0 (Some ''s1''), Arrive 1 (Some ''s1'')]))
       = [refresh_call ''R1'', refresh_call ''R1'']"
  by (simp add: run_def idle_def in_flight_def requireAuth_begin_def getSessionId_def getSession_def
        server_with_def row_def TOKEN_REFRESH_BUFFER_MS_def Let_def)

text \<open>
  C1, amended: there is no single-flight guard. Every \<open>requireAuth\<close> call that finds the
  session within the refresh window with a refresh credential sends exactly one refresh
  call of its own, not zero, not two; \<open>N\<close> requests for the same session that arrive
  before any refresh reply put \<open>N\<close> refresh exchanges in flight, \<open>N\<close> refresh calls having
  reached the upstream. Likewise every forwarded call that is answered 401 for a session
  with a refresh credential sends exactly one refresh call of its own.
\<close>

theorem one_refresh_per_resolve_call:
  "(sid \<noteq> [] \<and> store srv sid = Some session
      \<and> expiresAt session < clock srv + TOKEN_REFRESH_BUFFER_MS
      \<and> refreshToken session = Some rt \<and> rt \<noteq> []
     \<longrightarrow> sent srv (snd (requireAuth up (Some sid) srv)) = [refresh_call rt]
         \<and> in_flight sid (run (idle srv) (map (\<lambda>d. Arrive d (Some sid)) ds)) = length ds
         \<and> sent srv (node_server (run (idle srv) (map (\<lambda>d. Arrive d (Some sid)) ds)))
             = replicate (length ds) (refresh_call rt))
   \<and> (refreshToken s = Some rt' \<and> rt' \<noteq> []
      \<and> fst (up (calls srv) (forward_call apiPath verb b (Some (accessToken s)))) = Some r1
      \<and> status r1 = 401
     \<longrightarrow> refresh_attempts (sent srv (snd (proxyRequest up (Some s) sid' verb apiPath b srv))) = 1)"
proof (intro conjI impI)
  assume a: "sid \<noteq> [] \<and> store srv sid = Some session
      \<and> expiresAt session < clock srv + TOKEN_REFRESH_BUFFER_MS
      \<and> refreshToken session = Some rt \<and> rt \<noteq> []"
  then have eq: "requireAuth up (Some sid) srv =
          (case fst (refreshTokens up rt srv) of
             Inl e \<Rightarrow> (Inl e, answered up (refresh_call rt) srv)
           | Inr None \<Rightarrow> (Inr (Responded session_expired), answered up (refresh_call rt) srv)
           | Inr (Some newTokens) \<Rightarrow>
               (Inr (Next (Some (spread session (refreshed newTokens (Some rt)
                                   (clock (answered up (refresh_call rt) srv))))) sid),
                (answered up (refresh_call rt) srv)
                  \<lparr> store := (store srv)(sid \<mapsto> spread session (refreshed newTokens (Some rt)
                                   (clock (answered up (refresh_call rt) srv)))) \<rparr>))"
    by (intro requireAuth_refreshing) simp_all
  show "sent srv (snd (requireAuth up (Some sid) srv)) = [refresh_call rt]"
    unfolding eq by (simp add: sent_def split: sum.splits option.splits)
  from a have w: "waiting (run (idle srv) (map (\<lambda>d. Arrive d (Some sid)) ds)) =
           waiting (idle srv) @ replicate (length ds)
             \<lparr> pending_sessionId = sid, pending_session = session, pending_refreshToken = rt \<rparr>
         \<and> calls (node_server (run (idle srv) (map (\<lambda>d. Arrive d (Some sid)) ds))) =
             calls (node_server (idle srv)) @ replicate (length ds) (refresh_call rt)
         \<and> store (node_server (run (idle srv) (map (\<lambda>d. Arrive d (Some sid)) ds))) = store (node_server (idle srv))"
    by (intro arrivals_all_suspend) (simp_all add: idle_def)
  then show "in_flight sid (run (idle srv) (map (\<lambda>d. Arrive d (Some sid)) ds)) = length ds"
    by (simp add: in_flight_def idle_def)
  from w show "sent srv (node_server (run (idle srv) (map (\<lambda>d. Arrive d (Some sid)) ds)))
             = replicate (length ds) (refresh_call rt)"
    by (simp add: sent_def idle_def)
next
  assume "refreshToken s = Some rt' \<and> rt' \<noteq> []
      \<and> fst (up (calls srv) (forward_call apiPath verb b (Some (accessToken s)))) = Some r1
      \<and> status r1 = 401"
  then show "refresh_attempts (sent srv (snd (proxyRequest up (Some s) sid' verb apiPath b srv))) = 1"
    using proxyRequest_refresh_once [of up srv apiPath verb b s r1 rt' sid'] by simp
qed

theorem one_refresh_per_resolve_call_witness:
  "''s1'' \<noteq> []
   \<and> store (server_with (row ''A1'' (Some ''R1'') 60000) 0) ''s1'' = Some (row ''A1'' (Some ''R1'') 60000)
   \<and> expiresAt (row ''A1'' (Some ''R1'') 60000)
       < clock (server_with (row ''A1'' (Some ''R1'') 60000) 0) + TOKEN_REFRESH_BUFFER_MS
   \<and> refreshToken (row ''A1'' (Some ''R1'') 60000) = Some ''R1''
   \<and> sent (server_with (row ''A1'' (Some ''R1'') 60000) 0)
        (snd (requireAuth (answering tokens_A2 200) (Some ''s1'') (server_with (row ''A1'' (Some ''R1'') 60000) 0)))
       = [refresh_call ''R1'']
   \<and> in_flight ''s1'' (run (idle (server_with (row ''A1'' (Some ''R1'') 60000) 0))
                        [Arrive 0 (Some ''s1''), Arrive 1 (Some ''s1''), Arrive 2 (Some ''s1'')]) = 3
   \<and> sent (server_with (row ''A1'' (Some ''R1'') 60000) 0)
        (node_server (run (idle (server_with (row ''A1'' (Some ''R1'') 60000) 0))
                        [Arrive 0 (Some ''s1''), Arrive 1 (Some ''s1''), Arrive 2 (Some ''s1'')]))
       = [refresh_call ''R1'', refresh_call ''R1'', refresh_call ''R1'']
   \<and> \<not> expiresAt (row ''A1'' (Some ''R1'') 5000000)
         < clock (server_with (row ''A1'' (Some ''R1'') 5000000) 0) + TOKEN_REFRESH_BUFFER_MS
   \<and> refreshToken (row ''A1'' (Some ''R1'') 5000000) = Some ''R1''
   \<and> fst (answering tokens_A2 401 (calls (server_with (row ''A1'' (Some ''R1'') 5000000) 0))
            (forward_call ''/v1/users/me'' ''GET'' None (Some (accessToken (row ''A1'' (Some ''R1'') 5000000)))))
       = Some reply_401
   \<and> status reply_401 = 401
   \<and> refresh_attempts (sent (server_with (row ''A1'' (Some ''R1'') 5000000) 0)
        (snd (proxyRequest (answering tokens_A2 401) (Some (row ''A1'' (Some ''R1'') 5000000)) ''s1''
                ''GET'' ''/v1/users/me'' None (server_with (row ''A1'' (Some ''R1'') 5000000) 0)))) = 1"
  using one_refresh_per_resolve_call [where sid = "''s1''"
          and srv = "server_with (row ''A1'' (Some ''R1'') 60000) 0"
          and session = "row ''A1'' (Some ''R1'') 60000" and rt = "''R1''"
          and up = "answering tokens_A2 200" and ds = "[0, 1, 2]"]
        one_refresh_per_resolve_call [where srv = "server_with (row ''A1'' (Some ''R1'') 5000000) 0"
          and s = "row ''A1'' (Some ''R1'') 5000000" and rt' = "''R1''" and sid' = "''s1''"
          and up = "answering tokens_A2 401"
          and apiPath = "''/v1/users/me''" and verb = "''GET''" and b = None and ?r1.0 = reply_401]
  by (simp add: server_with_def row_def TOKEN_REFRESH_BUFFER_MS_def numeral_3_eq_3
        answering_def reply_401_def forward_call_def)

section \<open>The refresh credential across a refresh\<close>

text \<open>
  When \<open>requireAuth\<close> calls \<open>next()\<close>, the \<open>req.session\<close> it hands on is the row stored
  under \<open>req.sessionId\<close> in the state it leaves. What the rest of \<open>requireAuth\<close> does
  with new credentials, in whatever state the reply finds the server: it patches the row
  if there still is one, and goes on to \<open>next()\<close>. The refresh credential of a patched
  row is the reply's, if it has a non-empty one, and else the one handed to the patch.
\<close>

lemma requireAuth_Next_is_stored:
  "fst (requireAuth up cooky srv) = Inr (Next session sid) \<Longrightarrow>
     session = store (snd (requireAuth up cooky srv)) sid"
  by (auto simp: requireAuth_def getSessionId_def getSession_def Let_def
           split: option.splits if_splits sum.splits prod.splits)

lemma requireAuth_resume_tokens:
  "requireAuth_resume p (Inr (Some newTokens)) srv =
     (Inr (Next (map_option (\<lambda>stored. spread stored
                    (refreshed newTokens (refreshToken (pending_session p)) (clock srv)))
                  (store srv (pending_sessionId p)))
            (pending_sessionId p)),
      srv\<lparr> store := updateSession (pending_sessionId p)
                        (refreshed newTokens (refreshToken (pending_session p)) (clock srv)) (store srv) \<rparr>)"
  by (simp add: requireAuth_resume_def getSession_def updateSession_def Let_def split: option.splits)

lemma refreshed_refreshToken:
  "m sid = Some stored \<Longrightarrow>
     map_option refreshToken (updateSession sid (refreshed newTokens old now) m sid) =
       Some (case refresh_token newTokens of
               None \<Rightarrow> old
             | Some new \<Rightarrow> if new = [] then old else Some new)"
  by (simp add: updateSession_def spread_def refreshed_def or_else_def split: option.splits)

text \<open>
  C9, as stated: a refresh whose reply omits \<open>refresh_token\<close> leaves the row's refresh
  credential as it was. It fails when two refreshes of one session overlap: both
  requests read the row with \<open>R1\<close>; the first reply rotates the credential to \<open>R3\<close>; the
  second reply has no \<open>refresh_token\<close>, and the second request writes the \<open>R1\<close> it read
  before its \<open>await\<close> over the \<open>R3\<close> in the row.
\<close>

theorem stale_refresh_credential_counterexample:
  "map_option refreshToken
     (store (node_server (run (idle (server_with (row ''A1'' (Some ''R1'') 60000) 0))
        [Arrive 0 (Some ''s1''), Arrive 0 (Some ''s1''),
         Deliver 0 0 (Some (tokens_reply tokens_A3))])) ''s1'') = Some (Some ''R3'')
   \<and> refresh_token tokens_A2 = None
   \<and> map_option refreshToken
     (store (node_server (run (idle (server_with (row ''A1'' (Some ''R1'') 60000) 0))
        [Arrive 0 (Some ''s1''), Arrive 0 (Some ''s1''),
         Deliver 0 0 (Some (tokens_reply tokens_A3)),
         Deliver 0 0 (Some (tokens_reply tokens_A2))])) ''s1'') = Some (Some ''R1'')"
  by (simp add: run_def idle_def requireAuth_begin_def requireAuth_resume_def refresh_result_def
        getSessionId_def getSession_def updateSession_def spread_def refreshed_def or_else_def
        server_with_def row_def tokens_reply_def tokens_A2_def tokens_A3_def ok_def
        TOKEN_REFRESH_BUFFER_MS_def Let_def)

text \<open>
  C9, amended: after a refresh that yields new credentials, proactive in \<open>requireAuth\<close>
  or reactive in \<open>proxyRequest\<close>, the row's refresh credential is the reply's
  \<open>refresh_token\<close> when the reply supplies a non-empty one, and otherwise the refresh
  credential that the refreshing request itself read from the session before it sent the
  refresh. This holds in whatever state the reply finds the server (the delivery of a
  reply to any suspended request of any node; \<open>proxyRequest\<close> with any \<open>req.session\<close>
  and any stored row; the patch applied to any store). For a refresh that runs alone the
  credential read is the row's previous one: it is kept when the reply omits
  \<open>refresh_token\<close> and replaced only when the reply supplies a new one.
\<close>

theorem refresh_writes_supplied_or_read_credential:
  "(i < length (waiting n)
      \<and> store (node_server n) (pending_sessionId (waiting n ! i)) = Some stored
      \<and> refresh_result reply = Inr (Some newTokens)
     \<longrightarrow> map_option refreshToken
           (store (node_server (step n (Deliver d i reply))) (pending_sessionId (waiting n ! i)))
         = Some (case refresh_token newTokens of
                   None \<Rightarrow> refreshToken (pending_session (waiting n ! i))
                 | Some new \<Rightarrow> if new = [] then refreshToken (pending_session (waiting n ! i))
                              else Some new))
   \<and> (store srv sid = Some stored
      \<and> fst (up (calls srv) (forward_call apiPath verb b (Some (accessToken s)))) = Some r1
      \<and> status r1 = 401
      \<and> refreshToken s = Some rt \<and> rt \<noteq> []
      \<and> fst (refreshTokens up rt (answered up (forward_call apiPath verb b (Some (accessToken s))) srv))
          = Inr (Some newTokens)
     \<longrightarrow> map_option refreshToken (store (snd (proxyRequest up (Some s) sid verb apiPath b srv)) sid)
         = Some (case refresh_token newTokens of
                   None \<Rightarrow> Some rt
                 | Some new \<Rightarrow> if new = [] then Some rt else Some new))
   \<and> (m sid = Some stored
     \<longrightarrow> map_option refreshToken (updateSession sid (refreshed newTokens old now) m sid)
         = Some (case refresh_token newTokens of
                   None \<Rightarrow> old
                 | Some new \<Rightarrow> if new = [] then old else Some new))
   \<and> (sid \<noteq> [] \<and> store srv sid = Some session
      \<and> expiresAt session < clock srv + TOKEN_REFRESH_BUFFER_MS
      \<and> refreshToken session = Some rt \<and> rt \<noteq> []
      \<and> fst (refreshTokens up rt srv) = Inr (Some newTokens)
     \<longrightarrow> map_option refreshToken (store (snd (requireAuth up (Some sid) srv)) sid)
         = Some (case refresh_token newTokens of
                   None \<Rightarrow> refreshToken session
                 | Some new \<Rightarrow> if new = [] then refreshToken session else Some new))"
proof (intro conjI impI)
  assume a: "i < length (waiting n)
      \<and> store (node_server n) (pending_sessionId (waiting n ! i)) = Some stored
      \<and> refresh_result reply = Inr (Some newTokens)"
  then have "store (node_server (step n (Deliver d i reply))) =
               updateSession (pending_sessionId (waiting n ! i))
                 (refreshed newTokens (refreshToken (pending_session (waiting n ! i)))
                    (clock (node_server n) + int d))
                 (store (node_server n))"
    by (simp add: requireAuth_resume_tokens Let_def)
  with a show "map_option refreshToken
           (store (node_server (step n (Deliver d i reply))) (pending_sessionId (waiting n ! i)))
         = Some (case refresh_token newTokens of
                   None \<Rightarrow> refreshToken (pending_session (waiting n ! i))
                 | Some new \<Rightarrow> if new = [] then refreshToken (pending_session (waiting n ! i))
                              else Some new)"
    by (simp add: refreshed_refreshToken)
next
  assume a: "store srv sid = Some stored
      \<and> fst (up (calls srv) (forward_call apiPath verb b (Some (accessToken s)))) = Some r1
      \<and> status r1 = 401
      \<and> refreshToken s = Some rt \<and> rt \<noteq> []
      \<and> fst (refreshTokens up rt (answered up (forward_call apiPath verb b (Some (accessToken s))) srv))
          = Inr (Some newTokens)"
  then have "store (snd (proxyRequest up (Some s) sid verb apiPath b srv)) =
           updateSession sid
             (refreshed newTokens (Some rt)
                (clock (answered up (refresh_call rt)
                          (answered up (forward_call apiPath verb b (Some (accessToken s))) srv))))
             (store srv)"
    by (intro proxyRequest_refreshed_store [where ?r1.0 = r1]) simp_all
  with a show "map_option refreshToken (store (snd (proxyRequest up (Some s) sid verb apiPath b srv)) sid)
         = Some (case refresh_token newTokens of
                   None \<Rightarrow> Some rt
                 | Some new \<Rightarrow> if new = [] then Some rt else Some new)"
    by (simp add: refreshed_refreshToken)
next
  assume "m sid = Some stored"
  then show "map_option refreshToken (updateSession sid (refreshed newTokens old now) m sid)
         = Some (case refresh_token newTokens of
                   None \<Rightarrow> old
                 | Some new \<Rightarrow> if new = [] then old else Some new)"
    by (rule refreshed_refreshToken)
next
  assume a: "sid \<noteq> [] \<and> store srv sid = Some session
      \<and> expiresAt session < clock srv + TOKEN_REFRESH_BUFFER_MS
      \<and> refreshToken session = Some rt \<and> rt \<noteq> []
      \<and> fst (refreshTokens up rt srv) = Inr (Some newTokens)"
  then have "requireAuth up (Some sid) srv =
          (case fst (refreshTokens up rt srv) of
             Inl e \<Rightarrow> (Inl e, answered up (refresh_call rt) srv)
           | Inr None \<Rightarrow> (Inr (Responded session_expired), answered up (refresh_call rt) srv)
           | Inr (Some newTokens) \<Rightarrow>
               (Inr (Next (Some (spread session (refreshed newTokens (Some rt)
                                   (clock (answered up (refresh_call rt) srv))))) sid),
                (answered up (refresh_call rt) srv)
                  \<lparr> store := (store srv)(sid \<mapsto> spread session (refreshed newTokens (Some rt)
                                   (clock (answered up (refresh_call rt) srv)))) \<rparr>))"
    by (intro requireAuth_refreshing) simp_all
  with a show "map_option refreshToken (store (snd (requireAuth up (Some sid) srv)) sid)
         = Some (case refresh_token newTokens of
                   None \<Rightarrow> refreshToken session
                 | Some new \<Rightarrow> if new = [] then refreshToken session else Some new)"
    by (simp add: spread_def refreshed_def or_else_def split: option.splits)
qed

theorem refresh_writes_supplied_or_read_credential_witness:
  "0 < length (waiting (run (idle (server_with (row ''A1'' (Some ''R1'') 60000) 0))
          [Arrive 0 (Some ''s1''), Arrive 0 (Some ''s1''), Deliver 0 0 (Some (tokens_reply tokens_A3))]))
   \<and> store (node_server (run (idle (server_with (row ''A1'' (Some ''R1'') 60000) 0))
          [Arrive 0 (Some ''s1''), Arrive 0 (Some ''s1''), Deliver 0 0 (Some (tokens_reply tokens_A3))])) ''s1''
       = Some (row ''A3'' (Some ''R3'') 3600000)
   \<and> refresh_result (Some (tokens_reply tokens_A2)) = Inr (Some tokens_A2)
   \<and> map_option refreshToken
        (store (node_server (step (run (idle (server_with (row ''A1'' (Some ''R1'') 60000) 0))
            [Arrive 0 (Some ''s1''), Arrive 0 (Some ''s1''), Deliver 0 0 (Some (tokens_reply tokens_A3))])
          (Deliver 0 0 (Some (tokens_reply tokens_A2))))) ''s1'')
       = Some (Some ''R1'')
   \<and> store (server_with (row ''A1'' (Some ''R1'') 5000000) 0) ''s1'' = Some (row ''A1'' (Some ''R1'') 5000000)
   \<and> fst (answering tokens_A2 401 (calls (server_with (row ''A1'' (Some ''R1'') 5000000) 0))
            (forward_call ''/v1/users/me'' ''GET'' None (Some ''A1''))) = Some reply_401
   \<and> status reply_401 = 401
   \<and> refreshToken (row ''A1'' (Some ''R1'') 5000000) = Some ''R1'' \<and> ''R1'' \<noteq> []
   \<and> map_option refreshToken
        (store (snd (proxyRequest (answering tokens_A2 401) (Some (row ''A1'' (Some ''R1'') 5000000)) ''s1''
                       ''GET'' ''/v1/users/me'' None (server_with (row ''A1'' (Some ''R1'') 5000000) 0))) ''s1'')
       = Some (Some ''R1'')
   \<and> [''s1'' \<mapsto> row ''A3'' (Some ''R3'') 3600000] ''s1'' = Some (row ''A3'' (Some ''R3'') 3600000)
   \<and> map_option refreshToken
        (updateSession ''s1'' (refreshed tokens_A2 (Some ''R1'') 0)
           [''s1'' \<mapsto> row ''A3'' (Some ''R3'') 3600000] ''s1'')
       = Some (Some ''R1'')
   \<and> ''s1'' \<noteq> []
   \<and> store (server_with (row ''A1'' (Some ''R1'') 60000) 0) ''s1'' = Some (row ''A1'' (Some ''R1'') 60000)
   \<and> expiresAt (row ''A1'' (Some ''R1'') 60000)
       < clock (server_with (row ''A1'' (Some ''R1'') 60000) 0) + TOKEN_REFRESH_BUFFER_MS
   \<and> fst (refreshTokens (answering tokens_A2 200) ''R1'' (server_with (row ''A1'' (Some ''R1'') 60000) 0))
       = Inr (Some tokens_A2)
   \<and> map_option refreshToken
        (store (snd (requireAuth (answering tokens_A2 200) (Some ''s1'')
                       (server_with (row ''A1'' (Some ''R1'') 60000) 0))) ''s1'')
       = Some (Some ''R1'')
   \<and> map_option refreshToken
        (store (snd (requireAuth (answering tokens_A3 200) (Some ''s1'')
                       (server_with (row ''A1'' (Some ''R1'') 60000) 0))) ''s1'')
       = Some (Some ''R3'')"
  using refresh_writes_supplied_or_read_credential [where i = 0 and d = 0
          and n = "run (idle (server_with (row ''A1'' (Some ''R1'') 60000) 0))
                     [Arrive 0 (Some ''s1''), Arrive 0 (Some ''s1''), Deliver 0 0 (Some (tokens_reply tokens_A3))]"
          and stored = "row ''A3'' (Some ''R3'') 3600000"
          and reply = "Some (tokens_reply tokens_A2)" and newTokens = tokens_A2 and sid = "''s1''"
          and m = "[''s1'' \<mapsto> row ''A3'' (Some ''R3'') 3600000]" and old = "Some ''R1''" and now = 0]
        refresh_writes_supplied_or_read_credential [where newTokens = tokens_A2
          and stored = "row ''A1'' (Some ''R1'') 5000000"
          and srv = "server_with (row ''A1'' (Some ''R1'') 5000000) 0" and sid = "''s1''"
          and s = "row ''A1'' (Some ''R1'') 5000000" and rt = "''R1''"
          and up = "answering tokens_A2 401"
          and apiPath = "''/v1/users/me''" and verb = "''GET''" and b = None and ?r1.0 = reply_401]
        refresh_writes_supplied_or_read_credential [where sid = "''s1''"
          and srv = "server_with (row ''A1'' (Some ''R1'') 60000) 0"
          and session = "row ''A1'' (Some ''R1'') 60000" and rt = "''R1''"
          and up = "answering tokens_A2 200" and newTokens = tokens_A2]
        refresh_writes_supplied_or_read_credential [where sid = "''s1''"
          and srv = "server_with (row ''A1'' (Some ''R1'') 60000) 0"
          and session = "row ''A1'' (Some ''R1'') 60000" and rt = "''R1''"
          and up = "answering tokens_A3 200" and newTokens = tokens_A3]
  by (simp add: eval_defs run_def idle_def requireAuth_begin_def requireAuth_resume_def refresh_result_def)

section \<open>An expired session that can still be refreshed\<close>

text \<open>
  C10, as stated: if the refresh of an expired session succeeds, the session is updated
  and the request proceeds as authenticated. It fails when the row goes while the
  refresh is in flight: the request with the cookie \<open>s1\<close> is suspended on its refresh; a
  session query for \<open>s1\<close> finds the row expired and deletes it; the refresh reply brings
  new credentials, \<open>updateSession\<close> finds no row and stores nothing, and \<open>next()\<close> runs
  with \<open>req.session\<close> undefined.
\<close>

theorem resurrection_lost_row_counterexample:
  "waiting (step (idle (server_with (row ''A1'' (Some ''R1'') 5) 10)) (Arrive 0 (Some ''s1'')))
     = [\<lparr> pending_sessionId = ''s1'', pending_session = row ''A1'' (Some ''R1'') 5,
          pending_refreshToken = ''R1'' \<rparr>]
   \<and> refresh_result (Some (tokens_reply tokens_A2)) = Inr (Some tokens_A2)
   \<and> finished
        (step ((step (idle (server_with (row ''A1'' (Some ''R1'') 5) 10)) (Arrive 0 (Some ''s1'')))
                 \<lparr> node_server := snd (auth_session (Some ''s1'')
                      (node_server (step (idle (server_with (row ''A1'' (Some ''R1'') 5) 10))
                                         (Arrive 0 (Some ''s1''))))) \<rparr>)
              (Deliver 0 0 (Some (tokens_reply tokens_A2))))
       = [Inr (Next None ''s1'')]
   \<and> getSession ''s1'' (store (node_server
        (step ((step (idle (server_with (row ''A1'' (Some ''R1'') 5) 10)) (Arrive 0 (Some ''s1'')))
                 \<lparr> node_server := snd (auth_session (Some ''s1'')
                      (node_server (step (idle (server_with (row ''A1'' (Some ''R1'') 5) 10))
                                         (Arrive 0 (Some ''s1''))))) \<rparr>)
              (Deliver 0 0 (Some (tokens_reply tokens_A2)))))) = None"
  by (simp add: idle_def requireAuth_begin_def requireAuth_resume_def refresh_result_def
        auth_session_def getSessionInfo_def
        getSessionId_def getSession_def updateSession_def
        server_with_def row_def tokens_reply_def tokens_A2_def ok_def
        TOKEN_REFRESH_BUFFER_MS_def Let_def)

text \<open>
  C10, amended: for a session whose \<open>expiresAt\<close> has already passed but which holds a
  (non-empty) refresh credential, \<open>requireAuth\<close> does not answer 401 outright: it suspends
  on the refresh exchange for that credential, the one call it sends whatever the
  upstream does. When the refresh yields new credentials and the row is still stored as
  the reply arrives, the row is updated (new access token, expiry from the new
  \<open>expires_in\<close>) and the request goes on to \<open>next()\<close> with the updated row as
  \<open>req.session\<close>; a row deleted meanwhile is not stored again, and the request goes on
  to \<open>next()\<close> without a session. When the request runs alone the row is still stored,
  and the expired session is resurrected.
\<close>

theorem requireAuth_resurrects_expired:
  "(sid \<noteq> [] \<and> store srv sid = Some session
      \<and> expiresAt session < clock srv
      \<and> refreshToken session = Some rt \<and> rt \<noteq> []
     \<longrightarrow> requireAuth_begin (Some sid) srv =
           Suspended \<lparr> pending_sessionId = sid, pending_session = session, pending_refreshToken = rt \<rparr>
         \<and> sent srv (snd (requireAuth up (Some sid) srv)) = [refresh_call rt])
   \<and> (store srv' (pending_sessionId p) = Some stored
     \<longrightarrow> (\<exists>session'.
            requireAuth_resume p (Inr (Some newTokens)) srv' =
              (Inr (Next (Some session') (pending_sessionId p)),
               srv'\<lparr> store := (store srv')(pending_sessionId p \<mapsto> session') \<rparr>)
            \<and> accessToken session' = access_token newTokens
            \<and> expiresAt session' = clock srv' + expires_in newTokens * 1000))
   \<and> (store srv' (pending_sessionId p) = None
     \<longrightarrow> requireAuth_resume p (Inr (Some newTokens)) srv' = (Inr (Next None (pending_sessionId p)), srv'))
   \<and> (sid \<noteq> [] \<and> store srv sid = Some session
      \<and> expiresAt session < clock srv
      \<and> refreshToken session = Some rt \<and> rt \<noteq> []
      \<and> fst (refreshTokens up rt srv) = Inr (Some newTokens)
     \<longrightarrow> (\<exists>session'. fst (requireAuth up (Some sid) srv) = Inr (Next (Some session') sid)
            \<and> getSession sid (store (snd (requireAuth up (Some sid) srv))) = Some session'
            \<and> accessToken session' = access_token newTokens
            \<and> expiresAt session' = clock (snd (requireAuth up (Some sid) srv)) + expires_in newTokens * 1000))"
proof (intro conjI impI)
  assume a: "sid \<noteq> [] \<and> store srv sid = Some session
      \<and> expiresAt session < clock srv
      \<and> refreshToken session = Some rt \<and> rt \<noteq> []"
  then have near: "expiresAt session < clock srv + TOKEN_REFRESH_BUFFER_MS"
    by (simp add: TOKEN_REFRESH_BUFFER_MS_def)
  from a near show "requireAuth_begin (Some sid) srv =
           Suspended \<lparr> pending_sessionId = sid, pending_session = session, pending_refreshToken = rt \<rparr>"
    by (intro requireAuth_begin_suspends) simp_all
  from a near have eq: "requireAuth up (Some sid) srv =
          (case fst (refreshTokens up rt srv) of
             Inl e \<Rightarrow> (Inl e, answered up (refresh_call rt) srv)
           | Inr None \<Rightarrow> (Inr (Responded session_expired), answered up (refresh_call rt) srv)
           | Inr (Some newTokens) \<Rightarrow>
               (Inr (Next (Some (spread session (refreshed newTokens (Some rt)
                                   (clock (answered up (refresh_call rt) srv))))) sid),
                (answered up (refresh_call rt) srv)
                  \<lparr> store := (store srv)(sid \<mapsto> spread session (refreshed newTokens (Some rt)
                                   (clock (answered up (refresh_call rt) srv)))) \<rparr>))"
    by (intro requireAuth_refreshing) simp_all
  show "sent srv (snd (requireAuth up (Some sid) srv)) = [refresh_call rt]"
    unfolding eq by (simp add: sent_def split: sum.splits option.splits)
next
  assume "store srv' (pending_sessionId p) = Some stored"
  then show "\<exists>session'.
            requireAuth_resume p (Inr (Some newTokens)) srv' =
              (Inr (Next (Some session') (pending_sessionId p)),
               srv'\<lparr> store := (store srv')(pending_sessionId p \<mapsto> session') \<rparr>)
            \<and> accessToken session' = access_token newTokens
            \<and> expiresAt session' = clock srv' + expires_in newTokens * 1000"
    by (simp add: requireAuth_resume_tokens updateSession_def spread_def refreshed_def)
next
  assume "store srv' (pending_sessionId p) = None"
  then show "requireAuth_resume p (Inr (Some newTokens)) srv' = (Inr (Next None (pending_sessionId p)), srv')"
    by (simp add: requireAuth_resume_tokens updateSession_def)
next
  assume a: "sid \<noteq> [] \<and> store srv sid = Some session
      \<and> expiresAt session < clock srv
      \<and> refreshToken session = Some rt \<and> rt \<noteq> []
      \<and> fst (refreshTokens up rt srv) = Inr (Some newTokens)"
  then have near: "expiresAt session < clock srv + TOKEN_REFRESH_BUFFER_MS"
    by (simp add: TOKEN_REFRESH_BUFFER_MS_def)
  from a near have eq: "requireAuth up (Some sid) srv =
          (case fst (refreshTokens up rt srv) of
             Inl e \<Rightarrow> (Inl e, answered up (refresh_call rt) srv)
           | Inr None \<Rightarrow> (Inr (Responded session_expired), answered up (refresh_call rt) srv)
           | Inr (Some newTokens) \<Rightarrow>
               (Inr (Next (Some (spread session (refreshed newTokens (Some rt)
                                   (clock (answered up (refresh_call rt) srv))))) sid),
                (answered up (refresh_call rt) srv)
                  \<lparr> store := (store srv)(sid \<mapsto> spread session (refreshed newTokens (Some rt)
                                   (clock (answered up (refresh_call rt) srv)))) \<rparr>))"
    by (intro requireAuth_refreshing) simp_all
  from a show "\<exists>session'. fst (requireAuth up (Some sid) srv) = Inr (Next (Some session') sid)
            \<and> getSession sid (store (snd (requireAuth up (Some sid) srv))) = Some session'
            \<and> accessToken session' = access_token newTokens
            \<and> expiresAt session' = clock (snd (requireAuth up (Some sid) srv)) + expires_in newTokens * 1000"
    unfolding eq by (simp add: getSession_def spread_def refreshed_def)
qed

theorem requireAuth_resurrects_expired_witness:
  "''s1'' \<noteq> []
   \<and> store (server_with (row ''A1'' (Some ''R1'') 5) 10) ''s1'' = Some (row ''A1'' (Some ''R1'') 5)
   \<and> expiresAt (row ''A1'' (Some ''R1'') 5) < clock (server_with (row ''A1'' (Some ''R1'') 5) 10)
   \<and> refreshToken (row ''A1'' (Some ''R1'') 5) = Some ''R1''
   \<and> requireAuth_begin (Some ''s1'') (server_with (row ''A1'' (Some ''R1'') 5) 10)
       = Suspended \<lparr> pending_sessionId = ''s1'', pending_session = row ''A1'' (Some ''R1'') 5,
                     pending_refreshToken = ''R1'' \<rparr>
   \<and> sent (server_with (row ''A1'' (Some ''R1'') 5) 10)
        (snd (requireAuth (answering tokens_A2 200) (Some ''s1'') (server_with (row ''A1'' (Some ''R1'') 5) 10)))
       = [refresh_call ''R1'']
   \<and> fst (refreshTokens (answering tokens_A2 200) ''R1'' (server_with (row ''A1'' (Some ''R1'') 5) 10))
       = Inr (Some tokens_A2)
   \<and> fst (requireAuth (answering tokens_A2 200) (Some ''s1'') (server_with (row ''A1'' (Some ''R1'') 5) 10))
       = Inr (Next (Some (row ''A2'' (Some ''R1'') 3600010)) ''s1'')
   \<and> fst (requireAuth_resume
            \<lparr> pending_sessionId = ''s1'', pending_session = row ''A1'' (Some ''R1'') 5,
              pending_refreshToken = ''R1'' \<rparr>
            (Inr (Some tokens_A2)) (server_with (row ''A1'' (Some ''R1'') 5) 30))
       = Inr (Next (Some (row ''A2'' (Some ''R1'') 3600030)) ''s1'')
   \<and> store (empty_server 30) ''s1'' = None
   \<and> requireAuth_resume
        \<lparr> pending_sessionId = ''s1'', pending_session = row ''A1'' (Some ''R1'') 5,
          pending_refreshToken = ''R1'' \<rparr>
        (Inr (Some tokens_A2)) (empty_server 30)
       = (Inr (Next None ''s1''), empty_server 30)"
  using requireAuth_resurrects_expired [where sid = "''s1''"
          and srv = "server_with (row ''A1'' (Some ''R1'') 5) 10"
          and session = "row ''A1'' (Some ''R1'') 5" and rt = "''R1''"
          and up = "answering tokens_A2 200" and newTokens = tokens_A2
          and p = "\<lparr> pending_sessionId = ''s1'', pending_session = row ''A1'' (Some ''R1'') 5,
                     pending_refreshToken = ''R1'' \<rparr>"
          and srv' = "server_with (row ''A1'' (Some ''R1'') 5) 30"
          and stored = "row ''A1'' (Some ''R1'') 5"]
        requireAuth_resurrects_expired [where newTokens = tokens_A2
          and p = "\<lparr> pending_sessionId = ''s1'', pending_session = row ''A1'' (Some ''R1'') 5,
                     pending_refreshToken = ''R1'' \<rparr>"
          and srv' = "empty_server 30"]
  by (simp add: eval_defs requireAuth_begin_def requireAuth_resume_def)

end
